theory Spec2Isabelle
  imports Main
begin

section \<open>JavaScript values and strings\<close>

text \<open>
  The overlay controller \<^verbatim>\<open>PrototypeTester\<close> (file \<^verbatim>\<open>prototype-tester.js\<close>) is embedded
  shallowly. Configuration entries whose JavaScript truthiness or strict equality the code
  inspects are kept as JavaScript values.
\<close>

datatype jsval = Undefined | Null | JBool bool | JNum int | JStr string

fun truthy :: "jsval \<Rightarrow> bool" where
  "truthy Undefined = False"
| "truthy Null = False"
| "truthy (JBool b) = b"
| "truthy (JNum n) = (n \<noteq> 0)"
| "truthy (JStr s) = (s \<noteq> [])"

text \<open>Decimal rendering of an integer, as a template literal \<^verbatim>\<open>`${s}`\<close> produces it.\<close>

definition digit_char :: "nat \<Rightarrow> char" where
  "digit_char d = char_of (48 + d)"

fun digits :: "nat \<Rightarrow> string" where
  "digits n = (if n < 10 then [digit_char n] else digits (n div 10) @ [digit_char (n mod 10)])"

declare digits.simps [simp del]

definition show_int :: "int \<Rightarrow> string" where
  "show_int i = (if i < 0 then CHR ''-'' # digits (nat (- i)) else digits (nat i))"

text \<open>\<^verbatim>\<open>String(v)\<close> for the values a task's \<^verbatim>\<open>correctAnswer\<close> can hold.\<close>

fun js_String :: "jsval \<Rightarrow> string" where
  "js_String Undefined = ''undefined''"
| "js_String Null = ''null''"
| "js_String (JBool b) = (if b then ''true'' else ''false'')"
| "js_String (JNum n) = show_int n"
| "js_String (JStr s) = s"

text \<open>
  A \<^typ>\<open>string\<close> is the UTF-8 encoding of the JavaScript string, one \<^typ>\<open>char\<close> a byte.

  \<^verbatim>\<open>String.prototype.trim\<close> strips the white space and the line terminators of
  ECMAScript from both ends: U+0009 to U+000D and U+0020 (one byte each), U+00A0 (two
  bytes), and U+1680, U+2000 to U+200A, U+2028, U+2029, U+202F, U+205F, U+3000 and
  U+FEFF (three bytes each).
\<close>

definition js_ws :: "char \<Rightarrow> bool" where
  "js_ws c = ((9 \<le> (of_char c :: nat) \<and> (of_char c :: nat) \<le> 13) \<or> (of_char c :: nat) = 32)"

definition js_ws2 :: "char \<Rightarrow> char \<Rightarrow> bool" where
  "js_ws2 a b = ((of_char a :: nat) = 194 \<and> (of_char b :: nat) = 160)"

definition js_ws3 :: "char \<Rightarrow> char \<Rightarrow> char \<Rightarrow> bool" where
  "js_ws3 a b c =
     (let x = (of_char a :: nat); y = (of_char b :: nat); z = (of_char c :: nat)
      in (x = 225 \<and> y = 154 \<and> z = 128)
         \<or> (x = 226 \<and> y = 128 \<and> ((128 \<le> z \<and> z \<le> 138) \<or> z = 168 \<or> z = 169 \<or> z = 175))
         \<or> (x = 226 \<and> y = 129 \<and> z = 159)
         \<or> (x = 227 \<and> y = 128 \<and> z = 128)
         \<or> (x = 239 \<and> y = 187 \<and> z = 191))"

text \<open>
  \<open>strip\<close> removes the white space at the head of a list of bytes, given the tests for
  the one-, two- and three-byte characters; at the end of a string the same is done
  on the reversed bytes with the tests mirrored.
\<close>

fun strip :: "(char \<Rightarrow> char \<Rightarrow> bool) \<Rightarrow> (char \<Rightarrow> char \<Rightarrow> char \<Rightarrow> bool) \<Rightarrow> string \<Rightarrow> string" where
  "strip p2 p3 [] = []"
| "strip p2 p3 [a] = (if js_ws a then [] else [a])"
| "strip p2 p3 [a, b] =
     (if js_ws a then strip p2 p3 [b] else if p2 a b then [] else [a, b])"
| "strip p2 p3 (a # b # c # cs) =
     (if js_ws a then strip p2 p3 (b # c # cs)
      else if p2 a b then strip p2 p3 (c # cs)
      else if p3 a b c then strip p2 p3 cs
      else a # b # c # cs)"

definition trim :: "string \<Rightarrow> string" where
  "trim s =
     rev (strip (\<lambda>a b. js_ws2 b a) (\<lambda>a b c. js_ws3 c b a) (rev (strip js_ws2 js_ws3 s)))"

text \<open>
  \<^verbatim>\<open>String.prototype.toLowerCase\<close> is the engine's: it folds every cased letter of
  Unicode, by tables that are no part of this program, so the world carries it as a
  function (field \<open>toLowerCase\<close> below). On a string of ASCII characters it folds the
  letters \<open>A\<close> to \<open>Z\<close> and nothing else, which is \<open>ascii_lower\<close>.
\<close>

definition is_upper :: "char \<Rightarrow> bool" where
  "is_upper c = (65 \<le> (of_char c :: nat) \<and> (of_char c :: nat) \<le> 90)"

definition lower_char :: "char \<Rightarrow> char" where
  "lower_char c = (if is_upper c then char_of ((of_char c :: nat) + 32) else c)"

definition ascii_lower :: "string \<Rightarrow> string" where
  "ascii_lower s = map lower_char s"

text \<open>
  The remainder operator \<^verbatim>\<open>%\<close> truncates towards zero (the sign follows the dividend), and
  \<^verbatim>\<open>Math.floor(a / b)\<close> on integers with a positive divisor is HOL's \<open>div\<close>.
\<close>

definition js_rem :: "int \<Rightarrow> int \<Rightarrow> int" where
  "js_rem a b = sgn a * (\<bar>a\<bar> mod \<bar>b\<bar>)"

section \<open>Utilities\<close>

text \<open>
  \<^verbatim>\<open>_fmt(ms) { const s = Math.floor(ms / 1000);
     return s < 60 ? `${s}s` : `${Math.floor(s / 60)}m ${s % 60}s`; }\<close>
\<close>

definition fmt :: "int \<Rightarrow> string" where
  "fmt ms =
     (let s = ms div 1000
      in if s < 60 then show_int s @ ''s''
         else show_int (s div 60) @ ''m '' @ show_int (js_rem s 60) @ ''s'')"

section \<open>Data model\<close>

text \<open>
  A task definition as the author supplies it. Only the keys the controller's logic reads
  are kept (\<^verbatim>\<open>description\<close>, \<^verbatim>\<open>hint\<close> and \<^verbatim>\<open>question\<close> are only rendered).
  \<open>None\<close> stands for an absent key; \<^verbatim>\<open>correctAnswer\<close> is \<open>Undefined\<close> when absent.
\<close>

record task =
  task_id :: "string option"
  title :: string
  task_type :: "string option"
  goalEvent :: "string option"
  lookDuration :: "int option"
  options :: "string list option"
  correctAnswer :: jsval

text \<open>
  \<^verbatim>\<open>PT._cfg\<close>. The keys \<^verbatim>\<open>allowSkip\<close> and \<^verbatim>\<open>primaryColor\<close> are left out: no handler
  reads the first, and the second only colours the style sheet.
\<close>

record config =
  projectName :: string
  tasks :: "task list"
  webhookUrl :: jsval
  supabaseUrl :: jsval
  supabaseAnonKey :: jsval
  collectTesterInfo :: jsval
  downloadResults :: jsval

definition default_cfg :: config where
  "default_cfg =
     \<lparr> projectName = ''Prototype Test'', tasks = [], webhookUrl = Null, supabaseUrl = Null,
       supabaseAnonKey = Null, collectTesterInfo = JBool True, downloadResults = JBool True \<rparr>"

text \<open>
  The object handed to \<^verbatim>\<open>init\<close>; \<open>None\<close> is a key the author did not write.
  \<^verbatim>\<open>Object.assign(PT._cfg, config)\<close> overwrites exactly the keys that are present.
\<close>

record user_config =
  u_projectName :: "string option"
  u_tasks :: "task list option"
  u_webhookUrl :: "jsval option"
  u_supabaseUrl :: "jsval option"
  u_supabaseAnonKey :: "jsval option"
  u_collectTesterInfo :: "jsval option"
  u_downloadResults :: "jsval option"

definition assign :: "config \<Rightarrow> user_config \<Rightarrow> config" where
  "assign c u =
     \<lparr> projectName = (case u_projectName u of None \<Rightarrow> projectName c | Some v \<Rightarrow> v),
       tasks = (case u_tasks u of None \<Rightarrow> tasks c | Some v \<Rightarrow> v),
       webhookUrl = (case u_webhookUrl u of None \<Rightarrow> webhookUrl c | Some v \<Rightarrow> v),
       supabaseUrl = (case u_supabaseUrl u of None \<Rightarrow> supabaseUrl c | Some v \<Rightarrow> v),
       supabaseAnonKey = (case u_supabaseAnonKey u of None \<Rightarrow> supabaseAnonKey c | Some v \<Rightarrow> v),
       collectTesterInfo = (case u_collectTesterInfo u of None \<Rightarrow> collectTesterInfo c | Some v \<Rightarrow> v),
       downloadResults = (case u_downloadResults u of None \<Rightarrow> downloadResults c | Some v \<Rightarrow> v) \<rparr>"

text \<open>An entry of the click trail: \<^verbatim>\<open>{ t, x, y, tag, id, txt }\<close>.\<close>

record click =
  click_t :: int
  click_x :: int
  click_y :: int
  click_tag :: string
  click_id :: "string option"
  click_txt :: string

text \<open>
  A task result. \<^verbatim>\<open>taskType\<close>, \<^verbatim>\<open>recallAnswer\<close> and \<^verbatim>\<open>recallCorrect\<close> exist only on
  the results of recall tasks (\<open>None\<close>, \<open>Undefined\<close>: key absent); \<^verbatim>\<open>easeRating\<close> is a
  number or \<^verbatim>\<open>null\<close>, \<^verbatim>\<open>recallCorrect\<close> a boolean or \<^verbatim>\<open>null\<close>.
\<close>

record task_result =
  taskId :: string
  taskTitle :: string
  taskType :: "string option"
  completed :: bool
  durationMs :: int
  durationFmt :: string
  easeRating :: jsval
  comment :: string
  recallAnswer :: "string option"
  recallCorrect :: jsval
  res_clicks :: "click list"

text \<open>
  The payload built by \<^verbatim>\<open>_submit\<close>. \<open>submittedAt\<close> is the clock value whose ISO-8601
  rendering the code sends.
\<close>

record payload =
  p_sessionId :: string
  p_projectName :: string
  p_testerName :: string
  p_testerEmail :: string
  submittedAt :: int
  sessionDurationMs :: int
  sessionDurationFmt :: string
  overallRating :: nat
  overallComment :: string
  completedTasks :: nat
  totalTasks :: nat
  p_tasks :: "task_result list"

text \<open>The flattened row posted to the database; \<open>None\<close> is \<^verbatim>\<open>null\<close>.\<close>

record row =
  session_id :: string
  project_name :: string
  tester_name :: "string option"
  tester_email :: "string option"
  submitted_at :: int
  session_duration_fmt :: string
  overall_rating :: "nat option"
  overall_comment :: "string option"
  completed_tasks :: nat
  total_tasks :: nat
  row_tasks :: "task_result list"

text \<open>
  The dialog currently in \<^verbatim>\<open>#_pt-back\<close>, with the values its handlers have captured in
  their closures: the task and the elapsed time read when the dialog was requested, and
  the mutable locals \<^verbatim>\<open>rating\<close>, \<^verbatim>\<open>chosen\<close> and \<^verbatim>\<open>overall\<close>.
\<close>

datatype modal =
    MWelcome
  | MIntro
  | MRecallIntro int
  | MRecallQuestion task int string
  | MRecallFeedback
  | MGoal task int nat
  | MSkip task int
  | MFinal nat
  | MThanks

text \<open>
  The controller's state \<^verbatim>\<open>PT._s\<close>, the part of the page it acts on, its environment
  and what it has sent.
  \<^item> \<open>recallIv\<close> holds the \<^verbatim>\<open>remaining\<close> counter of the running countdown interval.
  \<^item> \<open>listenerLive\<close> says that the document still holds the one-shot listener that
    \<open>goalListener\<close> refers to (\<^verbatim>\<open>_startTask\<close> removes the previous one before it adds
    one, so the document never holds two).
  \<^item> \<open>barShown\<close>, \<open>controlsShown\<close>, \<open>doneVisible\<close>, \<open>skipConfirmOpen\<close> are the display
    of \<^verbatim>\<open>#_pt-bar\<close> and \<^verbatim>\<open>#_pt-controls\<close> and the classes \<^verbatim>\<open>visible\<close> of the done
    button and \<^verbatim>\<open>open\<close> of the skip confirmation.
  \<^item> \<open>toLowerCase\<close> is \<^verbatim>\<open>String.prototype.toLowerCase\<close> of the engine the page runs
    in; no handler changes it.
  \<^item> \<open>clock\<close> is what \<^verbatim>\<open>Date.now()\<close> returns; \<open>timeouts\<close> are the pending callbacks
    of \<^verbatim>\<open>_goalReached\<close> (due time, captured task, captured elapsed time), in the order
    they were set.
  \<^item> \<open>supabasePosts\<close>, \<open>webhookPosts\<close>, \<open>downloads\<close> are the requests and the file
    the sinks have produced.
\<close>

record world =
  cfg :: config
  sessionId :: string
  testerName :: string
  testerEmail :: string
  sessionStart :: int
  currentTask :: nat
  taskStart :: "int option"
  clicks :: "click list"
  taskResults :: "task_result list"
  goalListener :: "string option"
  recallIv :: "int option"
  recallActive :: bool
  skipState :: bool
  goalFired :: bool
  listenerLive :: bool
  modal :: "modal option"
  barShown :: bool
  controlsShown :: bool
  doneVisible :: bool
  skipConfirmOpen :: bool
  toLowerCase :: "string \<Rightarrow> string"
  clock :: int
  timeouts :: "(int \<times> task option \<times> int) list"
  supabasePosts :: "(string \<times> row) list"
  webhookPosts :: "(string \<times> payload) list"
  downloads :: "(string \<times> payload) list"

section \<open>The controller\<close>

text \<open>
  Each method of \<^verbatim>\<open>PT\<close> is a function on the world. What only paints the page (style
  sheet, progress bar, badge, titles, the hint panel with \<^verbatim>\<open>hintOpen\<close>, the live timer
  of \<^verbatim>\<open>timerIv\<close>) changes nothing a handler reads later and is left out. A handler that
  throws a \<^verbatim>\<open>TypeError\<close> on an undefined task stops there and keeps the assignments
  made before.
\<close>

definition nth_opt :: "'a list \<Rightarrow> nat \<Rightarrow> 'a option" where
  "nth_opt xs i = (if i < length xs then Some (xs ! i) else None)"

definition str_truthy :: "string option \<Rightarrow> bool" where
  "str_truthy v = (case v of None \<Rightarrow> False | Some s \<Rightarrow> s \<noteq> [])"

definition time_truthy :: "int option \<Rightarrow> bool" where
  "time_truthy v = (case v of None \<Rightarrow> False | Some n \<Rightarrow> n \<noteq> 0)"

text \<open>\<^verbatim>\<open>Date.now() - (PT._s.taskStart || Date.now())\<close>\<close>

definition elapsed_or_zero :: "world \<Rightarrow> int" where
  "elapsed_or_zero w =
     (case taskStart w of None \<Rightarrow> 0 | Some n \<Rightarrow> if n \<noteq> 0 then clock w - n else 0)"

definition closeModal :: "world \<Rightarrow> world" where
  "closeModal w = w\<lparr>modal := None\<rparr>"

definition clearGoalListener :: "world \<Rightarrow> world" where
  "clearGoalListener w =
     (if goalListener w \<noteq> None then w\<lparr>listenerLive := False, goalListener := None\<rparr> else w)"

text \<open>\<^verbatim>\<open>Math.round((task.lookDuration || 5000) / 1000)\<close>, rounding halves upwards.\<close>

definition recall_seconds :: "task \<Rightarrow> int" where
  "recall_seconds task =
     (let d = (case lookDuration task of None \<Rightarrow> 5000 | Some n \<Rightarrow> if n \<noteq> 0 then n else 5000)
      in (d + 500) div 1000)"

definition startRecallTask :: "nat \<Rightarrow> task \<Rightarrow> world \<Rightarrow> world" where
  "startRecallTask index task w =
     w\<lparr>controlsShown := False, modal := Some (MRecallIntro (recall_seconds task))\<rparr>"

definition startTask :: "nat \<Rightarrow> world \<Rightarrow> world" where
  "startTask index w =
     (let w1 = w\<lparr>currentTask := index, clicks := [], skipState := False, goalFired := False,
                  taskStart := None, recallActive := False, recallIv := None,
                  controlsShown := True, skipConfirmOpen := False\<rparr>
      in case nth_opt (tasks (cfg w)) index of
           None \<Rightarrow> w1
         | Some task \<Rightarrow>
             if task_type task = Some ''recall'' then startRecallTask index task w1
             else
               (let w2 = clearGoalListener (w1\<lparr>doneVisible := \<not> str_truthy (goalEvent task)\<rparr>);
                    w3 = (if str_truthy (goalEvent task)
                          then w2\<lparr>listenerLive := True, goalListener := goalEvent task\<rparr>
                          else w2)
                in w3\<lparr>modal := Some MIntro\<rparr>))"

definition showFinal :: "world \<Rightarrow> world" where
  "showFinal w = w\<lparr>barShown := False, modal := Some (MFinal 0)\<rparr>"

definition advance :: "world \<Rightarrow> world" where
  "advance w =
     (let next = currentTask w + 1
      in if next < length (tasks (cfg w)) then startTask next w else showFinal w)"

text \<open>\<^verbatim>\<open>task.id || `task_${PT._s.currentTask + 1}`\<close>\<close>

definition result_id :: "task \<Rightarrow> world \<Rightarrow> string" where
  "result_id task w =
     (case task_id task of
        None \<Rightarrow> ''task_'' @ show_int (int (currentTask w) + 1)
      | Some i \<Rightarrow> if i \<noteq> [] then i else ''task_'' @ show_int (int (currentTask w) + 1))"

definition record_result :: "task \<Rightarrow> bool \<Rightarrow> int \<Rightarrow> nat \<Rightarrow> string \<Rightarrow> world \<Rightarrow> world" where
  "record_result task done elapsed rating cmt w =
     w\<lparr>taskResults := taskResults w @
         [\<lparr> taskId = result_id task w, taskTitle = title task, taskType = None,
            completed = done, durationMs = elapsed, durationFmt = fmt elapsed,
            easeRating = JNum (int rating), comment = cmt, recallAnswer = None,
            recallCorrect = Undefined, res_clicks = clicks w \<rparr>]\<rparr>"

definition goalReached :: "world \<Rightarrow> world" where
  "goalReached w =
     (let w1 = clearGoalListener (w\<lparr>goalFired := True\<rparr>)
      in w1\<lparr>timeouts := timeouts w1 @
             [(clock w + 300, nth_opt (tasks (cfg w)) (currentTask w), elapsed_or_zero w)]\<rparr>)"

definition taskCompleted :: "world \<Rightarrow> world" where
  "taskCompleted w = (if time_truthy (taskStart w) \<and> \<not> goalFired w then goalReached w else w)"

definition doSkip :: "world \<Rightarrow> world" where
  "doSkip w =
     (let w1 = clearGoalListener w
      in case nth_opt (tasks (cfg w)) (currentTask w) of
           None \<Rightarrow> w1
         | Some task \<Rightarrow> w1\<lparr>modal := Some (MSkip task (elapsed_or_zero w))\<rparr>)"

definition runRecallCountdown :: "int \<Rightarrow> world \<Rightarrow> world" where
  "runRecallCountdown seconds w = w\<lparr>recallActive := True, recallIv := Some seconds\<rparr>"

text \<open>\<^verbatim>\<open>Date.now() - PT._s.taskStart\<close>, where \<^verbatim>\<open>null\<close> counts as 0.\<close>

definition showRecallQuestion :: "world \<Rightarrow> world" where
  "showRecallQuestion w =
     (case nth_opt (tasks (cfg w)) (currentTask w) of
        None \<Rightarrow> w
      | Some task \<Rightarrow>
          w\<lparr>modal := Some (MRecallQuestion task
                (clock w - (case taskStart w of None \<Rightarrow> 0 | Some n \<Rightarrow> n)) [])\<rparr>)"

definition finishRecall :: "task \<Rightarrow> int \<Rightarrow> string \<Rightarrow> world \<Rightarrow> world" where
  "finishRecall task elapsed answer w =
     (let hasKey = (correctAnswer task \<noteq> Undefined);
          correct = (if hasKey
                     then JBool (toLowerCase w answer = toLowerCase w (js_String (correctAnswer task)))
                     else Null);
          w1 = w\<lparr>taskResults := taskResults w @
                 [\<lparr> taskId = result_id task w, taskTitle = title task,
                    taskType = Some ''recall'', completed = True, durationMs = elapsed,
                    durationFmt = fmt elapsed, easeRating = Null, comment = [],
                    recallAnswer = Some answer, recallCorrect = correct,
                    res_clicks = clicks w \<rparr>],
                 controlsShown := True\<rparr>
      in if hasKey then w1\<lparr>modal := Some MRecallFeedback\<rparr> else advance (closeModal w1))"

subsection \<open>Submission\<close>

text \<open>\<^verbatim>\<open>v || null\<close> on a string and on a number.\<close>

definition str_or_null :: "string \<Rightarrow> string option" where
  "str_or_null v = (if v \<noteq> [] then Some v else None)"

definition num_or_null :: "nat \<Rightarrow> nat option" where
  "num_or_null n = (if n \<noteq> 0 then Some n else None)"

definition make_payload :: "nat \<Rightarrow> string \<Rightarrow> world \<Rightarrow> payload" where
  "make_payload overall cmt w =
     \<lparr> p_sessionId = sessionId w, p_projectName = projectName (cfg w),
       p_testerName = testerName w, p_testerEmail = testerEmail w,
       submittedAt = clock w, sessionDurationMs = clock w - sessionStart w,
       sessionDurationFmt = fmt (clock w - sessionStart w),
       overallRating = overall, overallComment = cmt,
       completedTasks = length (filter completed (taskResults w)),
       totalTasks = length (tasks (cfg w)), p_tasks = taskResults w \<rparr>"

definition make_row :: "payload \<Rightarrow> row" where
  "make_row p =
     \<lparr> session_id = p_sessionId p, project_name = p_projectName p,
       tester_name = str_or_null (p_testerName p), tester_email = str_or_null (p_testerEmail p),
       submitted_at = submittedAt p, session_duration_fmt = sessionDurationFmt p,
       overall_rating = num_or_null (overallRating p),
       overall_comment = str_or_null (overallComment p),
       completed_tasks = completedTasks p, total_tasks = totalTasks p, row_tasks = p_tasks p \<rparr>"

text \<open>
  \<^verbatim>\<open>PT._cfg.downloadResults === true ||
     (PT._cfg.downloadResults !== false && !PT._cfg.supabaseUrl)\<close>
\<close>

definition shouldDownload :: "config \<Rightarrow> bool" where
  "shouldDownload c =
     (downloadResults c = JBool True \<or> (downloadResults c \<noteq> JBool False \<and> \<not> truthy (supabaseUrl c)))"

definition submit :: "nat \<Rightarrow> string \<Rightarrow> world \<Rightarrow> world" where
  "submit overall cmt w =
     (let p = make_payload overall cmt w;
          c = cfg w;
          w1 = (if truthy (supabaseUrl c) \<and> truthy (supabaseAnonKey c)
                then w\<lparr>supabasePosts := supabasePosts w @
                        [(js_String (supabaseUrl c) @ ''/rest/v1/test_sessions'', make_row p)]\<rparr>
                else w);
          w2 = (if truthy (webhookUrl c)
                then w1\<lparr>webhookPosts := webhookPosts w1 @ [(js_String (webhookUrl c), p)]\<rparr>
                else w1);
          w3 = (if shouldDownload c
                then w2\<lparr>downloads := downloads w2 @
                        [(''pt-session-'' @ p_sessionId p @ ''.json'', p)]\<rparr>
                else w2)
      in w3\<lparr>modal := Some MThanks\<rparr>)"

subsection \<open>Click tracking\<close>

text \<open>
  The listener of \<^verbatim>\<open>_trackClicks\<close>, for a click whose target lies outside \<^verbatim>\<open>#_pt-bar\<close>
  and \<^verbatim>\<open>#_pt-back\<close> (for a click inside them the listener returns at once). The
  arguments are the rounded pointer position, the target's \<^verbatim>\<open>tagName\<close> and \<^verbatim>\<open>id\<close>, and
  the value of \<^verbatim>\<open>(innerText || value || '').slice(0, 60)\<close>.
\<close>

definition trackClicks :: "int \<Rightarrow> int \<Rightarrow> string \<Rightarrow> string \<Rightarrow> string \<Rightarrow> world \<Rightarrow> world" where
  "trackClicks x y tagName ident text w =
     (case taskStart w of
        None \<Rightarrow> w
      | Some n \<Rightarrow>
          if n = 0 then w
          else w\<lparr>clicks := clicks w @
                 [\<lparr> click_t = clock w - n, click_x = x, click_y = y,
                    click_tag = toLowerCase w tagName, click_id = str_or_null ident,
                    click_txt = trim text \<rparr>]\<rparr>)"

section \<open>Events\<close>

text \<open>
  What can happen to the page. Every handler runs to its end before the next event (one
  thread), at one value of the clock.
  \<^item> \<open>Elapse d\<close>: \<open>d\<close> milliseconds pass (the clock never runs backwards).
  \<^item> \<open>Dispatch name\<close>: the host runs \<^verbatim>\<open>document.dispatchEvent(new CustomEvent(name))\<close>;
    \<open>CallTaskCompleted\<close>: it calls \<^verbatim>\<open>PrototypeTester.taskCompleted()\<close>.
  \<^item> \<open>HostClick\<close>: a click on the host page outside the overlay.
  \<^item> \<open>TimeoutFire\<close>: the oldest pending callback of \<^verbatim>\<open>_goalReached\<close> runs, once its
    300 ms have passed; \<open>RecallTick\<close>: the countdown interval fires (the model does
    not bound when).
  \<^item> the others are clicks on the overlay's own buttons. A button of a dialog exists
    only while that dialog is open. A button of the bar can be clicked while it is
    displayed: the bar is stacked above the backdrop of the dialogs (z-index
    2147483646 against 2147483645), so an open dialog does not cover it.
  An event whose button or listener does not exist leaves the world as it is.
\<close>

datatype event =
    Elapse nat
  | Dispatch string
  | CallTaskCompleted
  | HostClick int int string string string
  | TimeoutFire
  | RecallTick
  | ClickStart string string
  | ClickGo
  | ClickRecallGo
  | ClickOption nat
  | ClickRecallSubmit string
  | ClickRecallNext
  | ClickDone
  | ClickSkip
  | ClickSkipNo
  | ClickSkipYes
  | ClickStar nat
  | ClickSuccessNext string
  | ClickSkipNext string
  | ClickSubmit string

text \<open>The one-shot listener \<^verbatim>\<open>() => { if (!PT._s.goalFired) PT._goalReached(); }\<close>.\<close>

definition dispatch :: "string \<Rightarrow> world \<Rightarrow> world" where
  "dispatch name w =
     (if listenerLive w \<and> goalListener w = Some name
      then (let w1 = w\<lparr>listenerLive := False\<rparr>
            in if \<not> goalFired w1 then goalReached w1 else w1)
      else w)"

definition timeoutFire :: "world \<Rightarrow> world" where
  "timeoutFire w =
     (case timeouts w of
        [] \<Rightarrow> w
      | (due, task, elapsed) # rest \<Rightarrow>
          if due \<le> clock w
          then (case task of
                  None \<Rightarrow> w\<lparr>timeouts := rest\<rparr>
                | Some tk \<Rightarrow> w\<lparr>timeouts := rest, modal := Some (MGoal tk elapsed 0)\<rparr>)
          else w)"

definition recallTick :: "world \<Rightarrow> world" where
  "recallTick w =
     (case recallIv w of
        None \<Rightarrow> w
      | Some remaining \<Rightarrow>
          if remaining - 1 \<le> 0
          then showRecallQuestion (w\<lparr>recallIv := None, recallActive := False\<rparr>)
          else w\<lparr>recallIv := Some (remaining - 1)\<rparr>)"

definition clickStart :: "string \<Rightarrow> string \<Rightarrow> world \<Rightarrow> world" where
  "clickStart name email w =
     (let w1 = (if truthy (collectTesterInfo (cfg w))
                then w\<lparr>testerName := trim name, testerEmail := trim email\<rparr> else w)
      in startTask 0 ((closeModal w1)\<lparr>barShown := True\<rparr>))"

fun step :: "event \<Rightarrow> world \<Rightarrow> world" where
  "step (Elapse d) w = w\<lparr>clock := clock w + int d\<rparr>"
| "step (Dispatch name) w = dispatch name w"
| "step CallTaskCompleted w = taskCompleted w"
| "step (HostClick x y tagName ident text) w = trackClicks x y tagName ident text w"
| "step TimeoutFire w = timeoutFire w"
| "step RecallTick w = recallTick w"
| "step (ClickStart name email) w =
     (case modal w of Some MWelcome \<Rightarrow> clickStart name email w | _ \<Rightarrow> w)"
| "step ClickGo w =
     (case modal w of Some MIntro \<Rightarrow> closeModal (w\<lparr>taskStart := Some (clock w)\<rparr>) | _ \<Rightarrow> w)"
| "step ClickRecallGo w =
     (case modal w of
        Some (MRecallIntro seconds) \<Rightarrow>
          runRecallCountdown seconds (closeModal (w\<lparr>taskStart := Some (clock w)\<rparr>))
      | _ \<Rightarrow> w)"
| "step (ClickOption k) w =
     (case modal w of
        Some (MRecallQuestion task elapsed chosen) \<Rightarrow>
          (case options task of
             None \<Rightarrow> w
           | Some opts \<Rightarrow>
               if k < length opts
               then w\<lparr>modal := Some (MRecallQuestion task elapsed (opts ! k))\<rparr> else w)
      | _ \<Rightarrow> w)"
| "step (ClickRecallSubmit typed) w =
     (case modal w of
        Some (MRecallQuestion task elapsed chosen) \<Rightarrow>
          finishRecall task elapsed (if options task \<noteq> None then chosen else trim typed) w
      | _ \<Rightarrow> w)"
| "step ClickRecallNext w =
     (case modal w of Some MRecallFeedback \<Rightarrow> advance (closeModal w) | _ \<Rightarrow> w)"
| "step ClickDone w =
     (if barShown w \<and> controlsShown w \<and> doneVisible w then goalReached w else w)"
| "step ClickSkip w =
     (if barShown w \<and> controlsShown w
      then w\<lparr>skipState := True, controlsShown := False, skipConfirmOpen := True\<rparr> else w)"
| "step ClickSkipNo w =
     (if barShown w \<and> skipConfirmOpen w
      then w\<lparr>skipState := False, controlsShown := True, skipConfirmOpen := False\<rparr> else w)"
| "step ClickSkipYes w = (if barShown w \<and> skipConfirmOpen w then doSkip w else w)"
| "step (ClickStar v) w =
     (if 1 \<le> v \<and> v \<le> 5
      then (case modal w of
              Some (MGoal task elapsed rating) \<Rightarrow> w\<lparr>modal := Some (MGoal task elapsed v)\<rparr>
            | Some (MFinal overall) \<Rightarrow> w\<lparr>modal := Some (MFinal v)\<rparr>
            | _ \<Rightarrow> w)
      else w)"
| "step (ClickSuccessNext cmt) w =
     (case modal w of
        Some (MGoal task elapsed rating) \<Rightarrow>
          advance (closeModal (record_result task True elapsed rating (trim cmt) w))
      | _ \<Rightarrow> w)"
| "step (ClickSkipNext cmt) w =
     (case modal w of
        Some (MSkip task elapsed) \<Rightarrow>
          advance (closeModal (record_result task False elapsed 0 (trim cmt) w))
      | _ \<Rightarrow> w)"
| "step (ClickSubmit cmt) w =
     (case modal w of Some (MFinal overall) \<Rightarrow> submit overall (trim cmt) w | _ \<Rightarrow> w)"

fun run :: "event list \<Rightarrow> world \<Rightarrow> world" where
  "run [] w = w"
| "run (e # es) w = run es (step e w)"

text \<open>
  \<^verbatim>\<open>init(config)\<close>, called in an engine whose \<^verbatim>\<open>toLowerCase\<close> is \<open>lc\<close>, when the
  clock shows \<open>now\<close>, with \<open>uid\<close> the value of \<^verbatim>\<open>_uid()\<close>: the shell is built with the
  bar hidden and the welcome dialog open.
\<close>

definition init :: "(string \<Rightarrow> string) \<Rightarrow> user_config \<Rightarrow> string \<Rightarrow> int \<Rightarrow> world" where
  "init lc u uid now =
     \<lparr> cfg = assign default_cfg u, sessionId = uid, testerName = [], testerEmail = [],
       sessionStart = now, currentTask = 0, taskStart = None, clicks = [], taskResults = [],
       goalListener = None, recallIv = None, recallActive = False, skipState = False,
       goalFired = False, listenerLive = False, modal = Some MWelcome, barShown = False,
       controlsShown = True, doneVisible = False, skipConfirmOpen = False,
       toLowerCase = lc, clock = now,
       timeouts = [], supabasePosts = [], webhookPosts = [], downloads = [] \<rparr>"

section \<open>Notions used by the properties\<close>

text \<open>
  Case-insensitive exact match, written from the words of the specification: two
  answers match when they are the same string once the case of their letters is
  disregarded, that is, once both are folded to lower case (\<open>ci_match\<close>, for a folding
  \<open>lc\<close>). For answers whose letters are the ASCII ones this is \<open>ci_equal\<close>: the same
  length, and position by position the same character up to the case of a letter.
\<close>

definition ci_match :: "(string \<Rightarrow> string) \<Rightarrow> string \<Rightarrow> string \<Rightarrow> bool" where
  "ci_match lc a b = (lc a = lc b)"

definition same_letter :: "char \<Rightarrow> char \<Rightarrow> bool" where
  "same_letter a b =
     (a = b \<or> (is_upper a \<and> (of_char b :: nat) = of_char a + 32)
            \<or> (is_upper b \<and> (of_char a :: nat) = of_char b + 32))"

definition ci_equal :: "string \<Rightarrow> string \<Rightarrow> bool" where
  "ci_equal xs ys = list_all2 same_letter xs ys"

text \<open>
  What may happen while a task is under way, short of the tester confirming a dialog or
  using the bar: time passes, the host dispatches events and calls
  \<^verbatim>\<open>taskCompleted\<close>, the tester clicks on the page, dismisses the instructions and
  picks stars, and the delayed success dialog opens.
\<close>

fun during_task :: "event \<Rightarrow> bool" where
  "during_task (Elapse d) = True"
| "during_task (Dispatch name) = True"
| "during_task CallTaskCompleted = True"
| "during_task (HostClick x y tagName ident text) = True"
| "during_task TimeoutFire = True"
| "during_task ClickGo = True"
| "during_task (ClickStar v) = True"
| "during_task e = False"

text \<open>The three ways a task without a goal signal is brought to a result.\<close>

fun completes_manually :: "event \<Rightarrow> bool" where
  "completes_manually ClickDone = True"
| "completes_manually ClickSkipYes = True"
| "completes_manually CallTaskCompleted = True"
| "completes_manually e = False"

text \<open>
  Invariants of the runs. \<open>trail_inv\<close>: the click trail is empty while no task clock
  runs, and otherwise every offset lies between 0 and the time since the clock was
  started, which no open instructions dialog can restart.
\<close>

definition trail_inv :: "world \<Rightarrow> bool" where
  "trail_inv w =
     (case taskStart w of
        None \<Rightarrow> clicks w = []
      | Some ts \<Rightarrow>
          ts \<le> clock w
          \<and> list_all (\<lambda>c. 0 \<le> click_t c \<and> ts + click_t c \<le> clock w) (clicks w)
          \<and> (case modal w of Some MIntro \<Rightarrow> False | Some (MRecallIntro n) \<Rightarrow> False | _ \<Rightarrow> True))"

text \<open>
  \<open>goal_armed\<close>: task \<open>i\<close> waits for its goal signal \<open>g\<close>. \<open>goal_reached\<close>: the signal
  has come, the listener is gone, and exactly one success dialog is either pending or
  open. \<open>manual_waiting\<close>: task \<open>i\<close> has no listener and no dialog but its instructions.
\<close>

definition goal_armed :: "config \<Rightarrow> task_result list \<Rightarrow> nat \<Rightarrow> string \<Rightarrow> world \<Rightarrow> bool" where
  "goal_armed c rs i g w =
     (cfg w = c \<and> taskResults w = rs \<and> currentTask w = i \<and> i < length (tasks c)
      \<and> \<not> goalFired w \<and> listenerLive w \<and> goalListener w = Some g \<and> timeouts w = []
      \<and> (modal w = Some MIntro \<or> modal w = None))"

definition goal_reached :: "config \<Rightarrow> task_result list \<Rightarrow> nat \<Rightarrow> world \<Rightarrow> bool" where
  "goal_reached c rs i w =
     (cfg w = c \<and> taskResults w = rs \<and> currentTask w = i \<and> i < length (tasks c)
      \<and> goalFired w \<and> \<not> listenerLive w \<and> goalListener w = None
      \<and> ((\<exists>due el. timeouts w = [(due, Some (tasks c ! i), el)] \<and> due \<le> clock w + 300
              \<and> (modal w = Some MIntro \<or> modal w = None))
          \<or> (timeouts w = [] \<and> (\<exists>el rating. modal w = Some (MGoal (tasks c ! i) el rating)))))"

definition manual_waiting :: "task_result list \<Rightarrow> nat \<Rightarrow> world \<Rightarrow> bool" where
  "manual_waiting rs i w =
     (taskResults w = rs \<and> currentTask w = i \<and> goalListener w = None \<and> doneVisible w
      \<and> timeouts w = [] \<and> recallIv w = None \<and> (modal w = Some MIntro \<or> modal w = None))"

subsection \<open>Sample sessions\<close>

definition std_task :: "string \<Rightarrow> string option \<Rightarrow> task" where
  "std_task ti g =
     \<lparr> task_id = None, title = ti, task_type = None, goalEvent = g, lookDuration = None,
       options = None, correctAnswer = Undefined \<rparr>"

definition demo_recall :: task where
  "demo_recall =
     \<lparr> task_id = None, title = ''Price'', task_type = Some ''recall'', goalEvent = None,
       lookDuration = Some 2000, options = Some [''A'', ''B''], correctAnswer = JStr ''A'' \<rparr>"

definition demo_config :: "task list \<Rightarrow> user_config" where
  "demo_config ts =
     \<lparr> u_projectName = None, u_tasks = Some ts, u_webhookUrl = None, u_supabaseUrl = None,
       u_supabaseAnonKey = None, u_collectTesterInfo = None, u_downloadResults = None \<rparr>"

definition supabase_config :: "task list \<Rightarrow> user_config" where
  "supabase_config ts =
     (demo_config ts)\<lparr> u_supabaseUrl := Some (JStr ''https://db.example''),
                        u_supabaseAnonKey := Some (JStr ''key'') \<rparr>"

text \<open>
  One recall task with a correct answer: the tester answers, and while the feedback
  dialog is open uses the bar to skip the task.
\<close>

definition recall_then_skip :: world where
  "recall_then_skip =
     run [ClickStart ''Jane'' [], ClickRecallGo, Elapse 1000, RecallTick, Elapse 1000,
          RecallTick, ClickOption 1, ClickRecallSubmit [], ClickSkip, ClickSkipYes,
          ClickSkipNext [], ClickSubmit []]
       (init ascii_lower (demo_config [demo_recall]) ''abc'' 1000)"

text \<open>One task with goal signal \<open>x\<close>; the instructions are still open.\<close>

definition goal_intro_open :: world where
  "goal_intro_open =
     run [ClickStart ''Jane'' []] (init ascii_lower (demo_config [std_task ''Add'' (Some ''x'')]) ''abc'' 1000)"

text \<open>
  The same task, started at 1000: a click on the page at 4000 makes the host dispatch
  \<open>x\<close> at once, a second click follows 100 ms later, and the success dialog opens at 4300.
\<close>

definition goal_dialog_open :: world where
  "goal_dialog_open =
     run [ClickGo, Elapse 3000, HostClick 10 20 ''BUTTON'' ''add'' ''Add'', Dispatch ''x'',
          Elapse 100, HostClick 30 40 ''DIV'' [] [], Elapse 200, TimeoutFire]
       goal_intro_open"

text \<open>One task without a goal signal, started; and a recall task, its timer started.\<close>

definition manual_started :: world where
  "manual_started =
     run [ClickStart ''Jane'' [], ClickGo, Elapse 2000]
       (init ascii_lower (demo_config [std_task ''Find'' None]) ''abc'' 1000)"

definition recall_started :: world where
  "recall_started =
     run [ClickStart ''Jane'' [], ClickRecallGo]
       (init ascii_lower (demo_config [demo_recall]) ''abc'' 1000)"

text \<open>The recall question of \<open>demo_recall\<close> after its two ticks, with option \<open>A\<close> picked.\<close>

definition recall_question_open :: world where
  "recall_question_open =
     run [Elapse 1000, RecallTick, Elapse 1000, RecallTick, ClickOption 0] recall_started"

text \<open>A free-text recall task without a correct answer, at its question.\<close>

definition open_recall :: task where
  "open_recall =
     \<lparr> task_id = Some ''slogan'', title = ''Slogan'', task_type = Some ''recall'',
       goalEvent = None, lookDuration = Some 1000, options = None, correctAnswer = Undefined \<rparr>"

definition open_recall_question :: world where
  "open_recall_question =
     run [ClickStart [] [], ClickRecallGo, Elapse 1000, RecallTick]
       (init ascii_lower (demo_config [open_recall]) ''abc'' 1000)"

text \<open>
  Two tasks, the first with goal signal \<open>x\<close>, the second without. In the first session
  the tester asks to skip the first task; in the second the first task is completed by
  \<open>x\<close> after 3000 ms and rated 4, and the tester asks to skip the second.
\<close>

definition two_tasks :: "task list" where
  "two_tasks = [std_task ''Add'' (Some ''x''), std_task ''Find'' None]"

definition skip_first_open :: world where
  "skip_first_open =
     run [ClickStart ''Jane'' [], ClickGo, Elapse 500, ClickSkip]
       (init ascii_lower (demo_config two_tasks) ''abc'' 1000)"

definition skip_second_open :: world where
  "skip_second_open =
     run [ClickStart ''Jane'' [], ClickGo, Elapse 3000, Dispatch ''x'', Elapse 300, TimeoutFire,
          ClickStar 4, ClickSuccessNext [], ClickGo, Elapse 700, ClickSkip]
       (init ascii_lower (demo_config two_tasks) ''abc'' 1000)"

text \<open>
  A session with a database, a webhook and the download all configured, at its final
  feedback 2300 ms after it began.
\<close>

definition all_sinks_config :: "task list \<Rightarrow> user_config" where
  "all_sinks_config ts =
     (supabase_config ts)\<lparr> u_webhookUrl := Some (JStr ''https://hook.example''),
                            u_downloadResults := Some (JBool True) \<rparr>"

definition all_sinks_final :: world where
  "all_sinks_final =
     run [ClickStart [] [], ClickGo, Elapse 2000, ClickDone, Elapse 300, TimeoutFire,
          ClickSuccessNext []]
       (init ascii_lower (all_sinks_config [std_task ''Find'' None]) ''abc'' 1000)"

text \<open>A finished session with a database configured and no star picked.\<close>

definition supabase_final :: world where
  "supabase_final =
     run [ClickStart [] [], ClickGo, Elapse 2000, ClickDone, Elapse 300, TimeoutFire,
          ClickSuccessNext []]
       (init ascii_lower (supabase_config [std_task ''Find'' None]) ''abc'' 1000)"


section \<open>Auxiliary facts\<close>

lemmas handler_defs = closeModal_def clearGoalListener_def startRecallTask_def startTask_def
  showFinal_def advance_def record_result_def goalReached_def taskCompleted_def doSkip_def
  runRecallCountdown_def showRecallQuestion_def finishRecall_def submit_def trackClicks_def
  dispatch_def timeoutFire_def recallTick_def clickStart_def

lemmas sample_defs = std_task_def demo_recall_def demo_config_def supabase_config_def
  recall_then_skip_def goal_intro_open_def goal_dialog_open_def manual_started_def
  recall_started_def supabase_final_def recall_question_open_def open_recall_def
  open_recall_question_def two_tasks_def skip_first_open_def skip_second_open_def
  all_sinks_config_def all_sinks_final_def
  init_def assign_def default_cfg_def

lemmas trim_defs = trim_def js_ws_def js_ws2_def js_ws3_def

lemmas eval_defs = sample_defs handler_defs nth_opt_def str_truthy_def time_truthy_def
  elapsed_or_zero_def recall_seconds_def result_id_def Let_def

lemma char_of_eq_nat: "(n::nat) < 256 \<Longrightarrow> (char_of n = c) = ((of_char c :: nat) = n)"
  by (metis char_of_char of_char_of mod_less)

lemma lower_char_upper:
  "is_upper a \<Longrightarrow> (lower_char a = c) = ((of_char c :: nat) = of_char a + 32)"
  by (simp add: lower_char_def is_upper_def char_of_eq_nat)

lemma lower_char_eq_iff: "lower_char a = lower_char b \<longleftrightarrow> same_letter a b"
proof (cases "is_upper a")
  case ua: True
  show ?thesis
  proof (cases "is_upper b")
    case True
    have "(lower_char a = lower_char b) = ((of_char (lower_char b) :: nat) = of_char a + 32)"
      using ua by (rule lower_char_upper)
    also have "(of_char (lower_char b) :: nat) = of_char b + 32"
      using True lower_char_upper[of b "lower_char b"] by simp
    finally show ?thesis using ua True
      by (auto simp: same_letter_def is_upper_def)
  next
    case False
    then have "lower_char b = b" by (simp add: lower_char_def)
    then show ?thesis using ua False lower_char_upper[of a b]
      by (auto simp: same_letter_def)
  qed
next
  case na: False
  then have la: "lower_char a = a" by (simp add: lower_char_def)
  show ?thesis
  proof (cases "is_upper b")
    case True
    then show ?thesis using na la lower_char_upper[of b a]
      by (auto simp: same_letter_def)
  next
    case False
    then show ?thesis using na la by (auto simp: same_letter_def lower_char_def)
  qed
qed

lemma ascii_lower_eq_iff: "ascii_lower xs = ascii_lower ys \<longleftrightarrow> ci_equal xs ys"
proof -
  have "ascii_lower xs = ascii_lower ys
          \<longleftrightarrow> list_all2 (=) (map lower_char xs) (map lower_char ys)"
    by (simp add: ascii_lower_def list_all2_eq)
  also have "\<dots> \<longleftrightarrow> list_all2 (\<lambda>a b. lower_char a = lower_char b) xs ys"
    by (simp add: list_all2_map1 list_all2_map2)
  finally show ?thesis by (simp add: ci_equal_def lower_char_eq_iff)
qed

lemma fmt_under: "ms < 60000 \<Longrightarrow> fmt ms = show_int (ms div 1000) @ ''s''"
  by (simp add: fmt_def Let_def)

lemma js_rem_nonneg: "0 \<le> a \<Longrightarrow> 0 < b \<Longrightarrow> js_rem a b = a mod b"
  by (cases "a = 0") (simp_all add: js_rem_def)

lemma fmt_over:
  assumes "60000 \<le> ms"
  shows "fmt ms = show_int (ms div 60000) @ ''m '' @ show_int ((ms div 1000) mod 60) @ ''s''"
proof -
  have s: "\<not> ms div 1000 < 60" using assms by linarith
  have d: "ms div 1000 div 60 = ms div 60000"
    by (simp add: div_mult2_eq[symmetric])
  have "0 \<le> ms div 1000" using assms by linarith
  then have r: "js_rem (ms div 1000) 60 = (ms div 1000) mod 60"
    by (simp add: js_rem_nonneg)
  show ?thesis using s d r by (simp add: fmt_def Let_def)
qed

lemma run_append: "run (es @ fs) w = run fs (run es w)"
  by (induction es arbitrary: w) simp_all

lemma taskResults_startTask [simp]: "taskResults (startTask i w) = taskResults w"
  by (simp add: startTask_def startRecallTask_def clearGoalListener_def Let_def
      split: option.splits)

lemma taskResults_advance [simp]: "taskResults (advance w) = taskResults w"
  by (simp add: advance_def showFinal_def Let_def)

lemma modal_advance: "modal (advance w) \<noteq> Some MRecallFeedback"
  by (simp add: advance_def showFinal_def startTask_def startRecallTask_def
      clearGoalListener_def nth_opt_def Let_def)

section \<open>Properties\<close>

lemma all_sinks_final_state:
  "modal all_sinks_final = Some (MFinal 0) \<and> clock all_sinks_final = 3300
   \<and> sessionStart all_sinks_final = 1000
   \<and> downloads all_sinks_final = [] \<and> webhookPosts all_sinks_final = []
   \<and> supabasePosts all_sinks_final = []
   \<and> webhookUrl (cfg all_sinks_final) = JStr ''https://hook.example''
   \<and> supabaseUrl (cfg all_sinks_final) = JStr ''https://db.example''
   \<and> supabaseAnonKey (cfg all_sinks_final) = JStr ''key''
   \<and> downloadResults (cfg all_sinks_final) = JBool True"
  by (simp add: eval_defs trim_defs)

text \<open>
  C8. The payload that \<^verbatim>\<open>_submit\<close> builds carries the clock at submission minus
  \<open>sessionStart\<close> as the session duration, and \<open>fmt\<close> of that difference as its
  formatted form; the click on \<open>Submit feedback\<close> hands exactly these to every sink it
  fires: the downloaded payload, the payload posted to the webhook, and the formatted
  duration of the row posted to the database. \<open>fmt\<close> renders a count under 60 seconds
  as the whole seconds followed by \<open>s\<close>, and any other count as the whole minutes,
  \<open>m\<close>, a space, the remaining seconds and \<open>s\<close>; 45000 ms gives \<open>45s\<close> and 125000 ms
  gives \<open>2m 5s\<close>.
\<close>

theorem session_duration_fmt:
  "sessionDurationMs (make_payload overall cmt w) = clock w - sessionStart w
   \<and> sessionDurationFmt (make_payload overall cmt w) = fmt (clock w - sessionStart w)
   \<and> (modal w = Some (MFinal overall) \<and> shouldDownload (cfg w) \<longrightarrow>
        (\<exists>name p. downloads (step (ClickSubmit cmt) w) = downloads w @ [(name, p)]
            \<and> sessionDurationMs p = clock w - sessionStart w
            \<and> sessionDurationFmt p = fmt (clock w - sessionStart w)))
   \<and> (modal w = Some (MFinal overall) \<and> truthy (webhookUrl (cfg w)) \<longrightarrow>
        (\<exists>url p. webhookPosts (step (ClickSubmit cmt) w) = webhookPosts w @ [(url, p)]
            \<and> sessionDurationMs p = clock w - sessionStart w
            \<and> sessionDurationFmt p = fmt (clock w - sessionStart w)))
   \<and> (modal w = Some (MFinal overall) \<and> truthy (supabaseUrl (cfg w))
          \<and> truthy (supabaseAnonKey (cfg w)) \<longrightarrow>
        (\<exists>url r. supabasePosts (step (ClickSubmit cmt) w) = supabasePosts w @ [(url, r)]
            \<and> session_duration_fmt r = fmt (clock w - sessionStart w)))
   \<and> (ms < 60000 \<longrightarrow> fmt ms = show_int (ms div 1000) @ ''s'')
   \<and> (60000 \<le> ms \<longrightarrow>
        fmt ms = show_int (ms div 60000) @ ''m '' @ show_int ((ms div 1000) mod 60) @ ''s'')
   \<and> fmt 45000 = ''45s'' \<and> fmt 125000 = ''2m 5s''"
proof -
  have e1: "fmt 45000 = ''45s''" by code_simp
  have e2: "fmt 125000 = ''2m 5s''" by code_simp
  have p: "sessionDurationMs (make_payload overall cmt w) = clock w - sessionStart w
      \<and> sessionDurationFmt (make_payload overall cmt w) = fmt (clock w - sessionStart w)"
    by (simp add: make_payload_def)
  have d: "modal w = Some (MFinal overall) \<and> shouldDownload (cfg w) \<longrightarrow>
        (\<exists>name p. downloads (step (ClickSubmit cmt) w) = downloads w @ [(name, p)]
            \<and> sessionDurationMs p = clock w - sessionStart w
            \<and> sessionDurationFmt p = fmt (clock w - sessionStart w))"
    by (simp add: submit_def Let_def make_payload_def)
  have h: "modal w = Some (MFinal overall) \<and> truthy (webhookUrl (cfg w)) \<longrightarrow>
        (\<exists>url p. webhookPosts (step (ClickSubmit cmt) w) = webhookPosts w @ [(url, p)]
            \<and> sessionDurationMs p = clock w - sessionStart w
            \<and> sessionDurationFmt p = fmt (clock w - sessionStart w))"
    by (simp add: submit_def Let_def make_payload_def)
  have b: "modal w = Some (MFinal overall) \<and> truthy (supabaseUrl (cfg w))
          \<and> truthy (supabaseAnonKey (cfg w)) \<longrightarrow>
        (\<exists>url r. supabasePosts (step (ClickSubmit cmt) w) = supabasePosts w @ [(url, r)]
            \<and> session_duration_fmt r = fmt (clock w - sessionStart w))"
    by (simp add: submit_def Let_def make_payload_def make_row_def)
  have f1: "ms < 60000 \<longrightarrow> fmt ms = show_int (ms div 1000) @ ''s''"
    by (simp add: fmt_under)
  have f2: "60000 \<le> ms \<longrightarrow>
        fmt ms = show_int (ms div 60000) @ ''m '' @ show_int ((ms div 1000) mod 60) @ ''s''"
    by (simp add: fmt_over)
  show ?thesis
    using p d h b f1 f2 e1 e2 by (intro conjI) (rule conjunct1, assumption | rule conjunct2, assumption | assumption)+
qed

theorem session_duration_fmt_witness:
  "(45000::int) < 60000 \<and> fmt 45000 = show_int 45 @ ''s''
   \<and> (60000::int) \<le> 125000 \<and> fmt 125000 = show_int 2 @ ''m '' @ show_int 5 @ ''s''
   \<and> modal all_sinks_final = Some (MFinal 0) \<and> shouldDownload (cfg all_sinks_final)
   \<and> truthy (webhookUrl (cfg all_sinks_final)) \<and> truthy (supabaseUrl (cfg all_sinks_final))
   \<and> truthy (supabaseAnonKey (cfg all_sinks_final))
   \<and> (\<exists>name p. downloads (step (ClickSubmit []) all_sinks_final) = [(name, p)]
          \<and> sessionDurationMs p = 2300 \<and> sessionDurationFmt p = fmt 2300)
   \<and> (\<exists>url p. webhookPosts (step (ClickSubmit []) all_sinks_final) = [(url, p)]
          \<and> sessionDurationMs p = 2300 \<and> sessionDurationFmt p = fmt 2300)
   \<and> (\<exists>url r. supabasePosts (step (ClickSubmit []) all_sinks_final) = [(url, r)]
          \<and> session_duration_fmt r = fmt 2300)"
proof -
  note th = session_duration_fmt[where overall = 0 and cmt = "[]" and w = all_sinks_final]
  have m: "modal all_sinks_final = Some (MFinal 0)"
    and sd: "shouldDownload (cfg all_sinks_final)"
    and wh: "truthy (webhookUrl (cfg all_sinks_final))"
    and su: "truthy (supabaseUrl (cfg all_sinks_final))"
    and sk: "truthy (supabaseAnonKey (cfg all_sinks_final))"
    by (simp_all add: all_sinks_final_state shouldDownload_def)
  have c: "clock all_sinks_final - sessionStart all_sinks_final = 2300"
    by (simp add: all_sinks_final_state)
  have a1: "(45000::int) < 60000 \<and> fmt 45000 = show_int 45 @ ''s''"
    using th[where ms = 45000] by simp
  have a2: "(60000::int) \<le> 125000 \<and> fmt 125000 = show_int 2 @ ''m '' @ show_int 5 @ ''s''"
    using th[where ms = 125000] by simp
  have a3: "\<exists>name p. downloads (step (ClickSubmit []) all_sinks_final) = [(name, p)]
          \<and> sessionDurationMs p = 2300 \<and> sessionDurationFmt p = fmt 2300"
    using th[where ms = 0] m sd c
    by (simp del: step.simps add: all_sinks_final_state)
  have a4: "\<exists>url p. webhookPosts (step (ClickSubmit []) all_sinks_final) = [(url, p)]
          \<and> sessionDurationMs p = 2300 \<and> sessionDurationFmt p = fmt 2300"
    using th[where ms = 0] m wh c
    by (simp del: step.simps add: all_sinks_final_state)
  have a5: "\<exists>url r. supabasePosts (step (ClickSubmit []) all_sinks_final) = [(url, r)]
          \<and> session_duration_fmt r = fmt 2300"
    using th[where ms = 0] m su sk c
    by (simp del: step.simps add: all_sinks_final_state)
  show ?thesis
    using a1 a2 a3 a4 a5 m sd wh su sk by (simp del: step.simps)
qed

subsection \<open>Submission sinks\<close>

lemma supabase_final_state:
  "modal supabase_final = Some (MFinal 0) \<and> testerName supabase_final = []
   \<and> testerEmail supabase_final = [] \<and> supabasePosts supabase_final = []
   \<and> supabaseUrl (cfg supabase_final) = JStr ''https://db.example''
   \<and> supabaseAnonKey (cfg supabase_final) = JStr ''key''"
  by (simp add: sample_defs handler_defs nth_opt_def str_truthy_def elapsed_or_zero_def
      Let_def trim_defs)

text \<open>
  C10. When a database is configured, the submission posts one flattened row in which an
  empty tester name, an empty tester email, an overall rating of 0 and an empty overall
  comment are \<^verbatim>\<open>null\<close>, and any other value is passed on as it is; so a session
  submitted with no star picked stores the overall rating \<^verbatim>\<open>null\<close>.
\<close>

theorem row_coerces_empty_to_null:
  assumes "modal w = Some (MFinal overall)"
    and "truthy (supabaseUrl (cfg w))" and "truthy (supabaseAnonKey (cfg w))"
  shows "\<exists>url r. supabasePosts (step (ClickSubmit cmt) w) = supabasePosts w @ [(url, r)]
           \<and> tester_name r = (if testerName w = [] then None else Some (testerName w))
           \<and> tester_email r = (if testerEmail w = [] then None else Some (testerEmail w))
           \<and> overall_rating r = (if overall = 0 then None else Some overall)
           \<and> overall_comment r = (if trim cmt = [] then None else Some (trim cmt))"
  using assms
  by (simp add: submit_def Let_def make_row_def make_payload_def str_or_null_def num_or_null_def)

theorem row_coerces_empty_to_null_witness:
  "modal supabase_final = Some (MFinal 0)
   \<and> truthy (supabaseUrl (cfg supabase_final)) \<and> truthy (supabaseAnonKey (cfg supabase_final))
   \<and> (\<exists>url r. supabasePosts (step (ClickSubmit []) supabase_final) = [(url, r)]
          \<and> tester_name r = None \<and> tester_email r = None
          \<and> overall_rating r = None \<and> overall_comment r = None)"
proof -
  have m: "modal supabase_final = Some (MFinal 0)"
    and u: "truthy (supabaseUrl (cfg supabase_final))"
    and k: "truthy (supabaseAnonKey (cfg supabase_final))"
    by (simp_all add: supabase_final_state)
  have t: "trim [] = []" by (simp add: trim_defs)
  show ?thesis
    using row_coerces_empty_to_null[OF m u k, of "[]"] m u k t
    by (simp add: supabase_final_state)
qed

text \<open>
  The download sink fires exactly when \<open>shouldDownload\<close> holds of the configuration, and
  it then writes the payload under the name \<open>pt-session-<sessionId>.json\<close>.
\<close>

lemma download_iff_shouldDownload:
  "downloads (submit overall cmt w) =
     (if shouldDownload (cfg w)
      then downloads w @ [(''pt-session-'' @ sessionId w @ ''.json'', make_payload overall cmt w)]
      else downloads w)"
  by (simp add: submit_def Let_def make_payload_def)

text \<open>
  Nothing lowers \<^verbatim>\<open>downloadResults\<close> when a database endpoint is given: whenever the
  author leaves the key out, the default \<^verbatim>\<open>true\<close> stays and the download is on.
\<close>

lemma shouldDownload_default:
  "u_downloadResults u = None \<Longrightarrow> shouldDownload (assign default_cfg u)"
  by (simp add: shouldDownload_def assign_def default_cfg_def)

text \<open>
  C4, at a session with a database endpoint configured and \<^verbatim>\<open>downloadResults\<close> not
  written by the author: the effective value is still \<^verbatim>\<open>true\<close>, so the submission
  writes the file \<open>pt-session-abc.json\<close> next to the database row, where the claim has
  the download switched off.
\<close>

theorem download_fires_with_database:
  "u_downloadResults (supabase_config [std_task ''Find'' None]) = None
   \<and> truthy (supabaseUrl (cfg supabase_final))
   \<and> downloadResults (cfg supabase_final) = JBool True
   \<and> shouldDownload (cfg supabase_final)
   \<and> map fst (downloads (step (ClickSubmit []) supabase_final)) = [''pt-session-abc.json'']
   \<and> length (supabasePosts (step (ClickSubmit []) supabase_final)) = 1"
  by (simp add: sample_defs handler_defs nth_opt_def str_truthy_def elapsed_or_zero_def
      Let_def trim_defs shouldDownload_def make_payload_def)

subsection \<open>Recall tasks\<close>

lemma recall_question_open_state:
  "modal recall_question_open = Some (MRecallQuestion demo_recall 2000 ''A'')
   \<and> taskResults recall_question_open = []
   \<and> toLowerCase recall_question_open = ascii_lower"
  by (simp add: eval_defs)

lemma open_recall_question_state:
  "modal open_recall_question = Some (MRecallQuestion open_recall 1000 [])
   \<and> taskResults open_recall_question = []"
  by (simp add: eval_defs trim_defs)

text \<open>
  C5. Submitting the answer of a recall task appends one result with \<open>completed\<close> true,
  whatever the answer. When the task has a \<^verbatim>\<open>correctAnswer\<close>, \<open>recallCorrect\<close> is the
  boolean saying whether the answer and the correct answer match case-insensitively
  and exactly (they are the same once the engine has folded both to lower case; where
  the engine folds only the letters \<open>A\<close> to \<open>Z\<close> of the two strings, as it does for
  ASCII strings, that is: the same length and the same characters up to the case of a
  letter), and the feedback dialog opens; when the task has none, \<open>recallCorrect\<close> is
  \<^verbatim>\<open>null\<close> and no feedback dialog is shown.
\<close>

theorem recall_submit_result:
  assumes "modal w = Some (MRecallQuestion task elapsed chosen)"
  shows "\<exists>r. taskResults (step (ClickRecallSubmit typed) w) = taskResults w @ [r]
           \<and> completed r
           \<and> recallAnswer r = Some (if options task \<noteq> None then chosen else trim typed)
           \<and> (correctAnswer task \<noteq> Undefined \<longrightarrow>
                recallCorrect r =
                  JBool (ci_match (toLowerCase w)
                           (if options task \<noteq> None then chosen else trim typed)
                           (js_String (correctAnswer task)))
                \<and> modal (step (ClickRecallSubmit typed) w) = Some MRecallFeedback)
           \<and> (correctAnswer task \<noteq> Undefined
                \<and> toLowerCase w (if options task \<noteq> None then chosen else trim typed)
                      = ascii_lower (if options task \<noteq> None then chosen else trim typed)
                \<and> toLowerCase w (js_String (correctAnswer task))
                      = ascii_lower (js_String (correctAnswer task)) \<longrightarrow>
                recallCorrect r =
                  JBool (ci_equal (if options task \<noteq> None then chosen else trim typed)
                                  (js_String (correctAnswer task))))
           \<and> (correctAnswer task = Undefined \<longrightarrow>
                recallCorrect r = Null
                \<and> modal (step (ClickRecallSubmit typed) w) \<noteq> Some MRecallFeedback)"
  using assms
  by (auto simp: finishRecall_def Let_def ci_match_def ascii_lower_eq_iff modal_advance
      closeModal_def)

theorem recall_submit_result_witness:
  "modal recall_question_open = Some (MRecallQuestion demo_recall 2000 ''A'')
   \<and> correctAnswer demo_recall \<noteq> Undefined
   \<and> toLowerCase recall_question_open ''A'' = ascii_lower ''A''
   \<and> (\<exists>r. taskResults (step (ClickRecallSubmit []) recall_question_open) = [r]
          \<and> completed r \<and> recallAnswer r = Some ''A'' \<and> recallCorrect r = JBool True)
   \<and> modal (step (ClickRecallSubmit []) recall_question_open) = Some MRecallFeedback
   \<and> modal open_recall_question = Some (MRecallQuestion open_recall 1000 [])
   \<and> correctAnswer open_recall = Undefined
   \<and> (\<exists>r. taskResults (step (ClickRecallSubmit '' Fast '') open_recall_question) = [r]
          \<and> completed r \<and> recallAnswer r = Some ''Fast'' \<and> recallCorrect r = Null)
   \<and> modal (step (ClickRecallSubmit '' Fast '') open_recall_question) \<noteq> Some MRecallFeedback"
proof -
  have m1: "modal recall_question_open = Some (MRecallQuestion demo_recall 2000 ''A'')"
    by (simp add: recall_question_open_state)
  have m2: "modal open_recall_question = Some (MRecallQuestion open_recall 1000 [])"
    by (simp add: open_recall_question_state)
  have lc: "toLowerCase recall_question_open = ascii_lower"
    by (simp add: recall_question_open_state)
  have c: "ci_equal ''A'' ''A''" by (simp add: ci_equal_def same_letter_def)
  have c': "ci_match ascii_lower ''A'' ''A''" by (simp add: ci_match_def)
  have t: "trim '' Fast '' = ''Fast''" by (simp add: trim_defs)
  have k1: "correctAnswer demo_recall = JStr ''A'' \<and> options demo_recall = Some [''A'', ''B'']"
    by (simp add: demo_recall_def)
  have k2: "correctAnswer open_recall = Undefined \<and> options open_recall = None"
    by (simp add: open_recall_def)
  have a1: "\<exists>r. taskResults (step (ClickRecallSubmit []) recall_question_open) = [r]
          \<and> completed r \<and> recallAnswer r = Some ''A'' \<and> recallCorrect r = JBool True
          \<and> modal (step (ClickRecallSubmit []) recall_question_open) = Some MRecallFeedback"
    using recall_submit_result[OF m1, of "[]"] c c' k1 lc
    by (simp del: step.simps add: recall_question_open_state) blast
  have a2: "\<exists>r. taskResults (step (ClickRecallSubmit '' Fast '') open_recall_question) = [r]
          \<and> completed r \<and> recallAnswer r = Some ''Fast'' \<and> recallCorrect r = Null
          \<and> modal (step (ClickRecallSubmit '' Fast '') open_recall_question)
                \<noteq> Some MRecallFeedback"
    using recall_submit_result[OF m2, of "'' Fast ''"] t k2
    by (simp del: step.simps add: open_recall_question_state)
  show ?thesis
    using a1 a2 m1 m2 k1 k2 lc by auto
qed

subsection \<open>Skipping\<close>

lemma modal_startTask:
  "nth_opt (tasks (cfg w)) i = Some task \<Longrightarrow>
     modal (startTask i w) =
       Some (if task_type task = Some ''recall'' then MRecallIntro (recall_seconds task) else MIntro)
     \<and> currentTask (startTask i w) = i \<and> taskStart (startTask i w) = None"
  by (simp add: startTask_def startRecallTask_def clearGoalListener_def Let_def)

lemma skip_first_open_state:
  "barShown skip_first_open \<and> skipConfirmOpen skip_first_open \<and> currentTask skip_first_open = 0
   \<and> tasks (cfg skip_first_open) = two_tasks \<and> taskResults skip_first_open = []
   \<and> taskStart skip_first_open = Some 1000 \<and> clock skip_first_open = 1500"
  by (simp add: eval_defs trim_defs)

lemma skip_second_open_state:
  "barShown skip_second_open \<and> skipConfirmOpen skip_second_open \<and> currentTask skip_second_open = 1
   \<and> tasks (cfg skip_second_open) = two_tasks \<and> length (taskResults skip_second_open) = 1
   \<and> map completed (taskResults skip_second_open) = [True]
   \<and> map durationMs (taskResults skip_second_open) = [3000]
   \<and> map easeRating (taskResults skip_second_open) = [JNum 4]"
  by (simp add: eval_defs trim_defs)


text \<open>
  C9. Confirming a skip (\<open>Yes, skip\<close>, then the button of the skip dialog) appends exactly
  one result, with \<open>completed\<close> false, ease rating 0 and the trimmed comment, for the
  current task; the controller then starts the next task, or opens the final feedback
  when there is none.
\<close>

theorem skip_appends_failed_result:
  assumes "barShown w" and "skipConfirmOpen w"
    and "nth_opt (tasks (cfg w)) (currentTask w) = Some task"
  shows "taskResults (step ClickSkipYes w) = taskResults w
     \<and> (\<exists>r. taskResults (run [ClickSkipYes, ClickSkipNext cmt] w) = taskResults w @ [r]
            \<and> \<not> completed r \<and> easeRating r = JNum 0 \<and> comment r = trim cmt
            \<and> taskTitle r = title task \<and> durationMs r = elapsed_or_zero w)
     \<and> (currentTask w + 1 < length (tasks (cfg w)) \<longrightarrow>
          currentTask (run [ClickSkipYes, ClickSkipNext cmt] w) = currentTask w + 1
          \<and> taskStart (run [ClickSkipYes, ClickSkipNext cmt] w) = None
          \<and> modal (run [ClickSkipYes, ClickSkipNext cmt] w) =
              Some (if task_type (tasks (cfg w) ! (currentTask w + 1)) = Some ''recall''
                    then MRecallIntro (recall_seconds (tasks (cfg w) ! (currentTask w + 1)))
                    else MIntro))
     \<and> (\<not> currentTask w + 1 < length (tasks (cfg w)) \<longrightarrow>
          modal (run [ClickSkipYes, ClickSkipNext cmt] w) = Some (MFinal 0))"
proof -
  let ?w1 = "step ClickSkipYes w"
  have w1: "?w1 = (clearGoalListener w)\<lparr>modal := Some (MSkip task (elapsed_or_zero w))\<rparr>"
    using assms by (simp add: doSkip_def Let_def)
  have f1: "taskResults ?w1 = taskResults w" "cfg ?w1 = cfg w" "currentTask ?w1 = currentTask w"
    "modal ?w1 = Some (MSkip task (elapsed_or_zero w))"
    unfolding w1 by (simp_all add: clearGoalListener_def)
  let ?w2 = "closeModal (record_result task False (elapsed_or_zero w) 0 (trim cmt) ?w1)"
  have r: "run [ClickSkipYes, ClickSkipNext cmt] w = advance ?w2"
    using f1 by simp
  have f2: "cfg ?w2 = cfg w" "currentTask ?w2 = currentTask w"
    using f1 by (simp_all add: closeModal_def record_result_def)
  have res: "\<exists>r. taskResults (advance ?w2) = taskResults w @ [r]
            \<and> \<not> completed r \<and> easeRating r = JNum 0 \<and> comment r = trim cmt
            \<and> taskTitle r = title task \<and> durationMs r = elapsed_or_zero w"
    using f1 by (simp add: closeModal_def record_result_def)
  have nxt: "currentTask w + 1 < length (tasks (cfg w)) \<Longrightarrow>
      currentTask (advance ?w2) = currentTask w + 1 \<and> taskStart (advance ?w2) = None
      \<and> modal (advance ?w2) =
              Some (if task_type (tasks (cfg w) ! (currentTask w + 1)) = Some ''recall''
                    then MRecallIntro (recall_seconds (tasks (cfg w) ! (currentTask w + 1)))
                    else MIntro)"
  proof -
    assume lt: "currentTask w + 1 < length (tasks (cfg w))"
    then have n: "nth_opt (tasks (cfg ?w2)) (currentTask w + 1) = Some (tasks (cfg w) ! (currentTask w + 1))"
      using f2 by (simp add: nth_opt_def)
    have a: "advance ?w2 = startTask (currentTask w + 1) ?w2"
      using lt f2 by (simp add: advance_def Let_def)
    show ?thesis unfolding a using modal_startTask[OF n] by simp
  qed
  have fin: "\<not> currentTask w + 1 < length (tasks (cfg w)) \<Longrightarrow> modal (advance ?w2) = Some (MFinal 0)"
    using f2 by (simp add: advance_def Let_def showFinal_def)
  show ?thesis
    unfolding r using f1(1) res nxt fin by blast
qed


theorem skip_appends_failed_result_witness:
  "barShown skip_first_open \<and> skipConfirmOpen skip_first_open
   \<and> nth_opt (tasks (cfg skip_first_open)) (currentTask skip_first_open)
        = Some (std_task ''Add'' (Some ''x''))
   \<and> currentTask skip_first_open + 1 < length (tasks (cfg skip_first_open))
   \<and> (\<exists>r. taskResults (run [ClickSkipYes, ClickSkipNext [] ] skip_first_open) = [r]
          \<and> \<not> completed r \<and> easeRating r = JNum 0 \<and> comment r = [] \<and> durationMs r = 500)
   \<and> currentTask (run [ClickSkipYes, ClickSkipNext [] ] skip_first_open) = 1
   \<and> modal (run [ClickSkipYes, ClickSkipNext [] ] skip_first_open) = Some MIntro
   \<and> barShown skip_second_open \<and> skipConfirmOpen skip_second_open
   \<and> nth_opt (tasks (cfg skip_second_open)) (currentTask skip_second_open)
        = Some (std_task ''Find'' None)
   \<and> \<not> currentTask skip_second_open + 1 < length (tasks (cfg skip_second_open))
   \<and> (\<exists>r. taskResults (run [ClickSkipYes, ClickSkipNext ''confusing''] skip_second_open)
            = taskResults skip_second_open @ [r]
          \<and> \<not> completed r \<and> easeRating r = JNum 0 \<and> comment r = ''confusing'')
   \<and> modal (run [ClickSkipYes, ClickSkipNext ''confusing''] skip_second_open) = Some (MFinal 0)"
proof -
  have b1: "barShown skip_first_open" and o1: "skipConfirmOpen skip_first_open"
    and n1: "nth_opt (tasks (cfg skip_first_open)) (currentTask skip_first_open)
               = Some (std_task ''Add'' (Some ''x''))"
    by (simp_all add: skip_first_open_state two_tasks_def nth_opt_def)
  have b2: "barShown skip_second_open" and o2: "skipConfirmOpen skip_second_open"
    and n2: "nth_opt (tasks (cfg skip_second_open)) (currentTask skip_second_open)
               = Some (std_task ''Find'' None)"
    by (simp_all add: skip_second_open_state two_tasks_def nth_opt_def)
  have t: "trim [] = []" "trim ''confusing'' = ''confusing''"
    by (simp_all add: trim_defs)
  have e: "elapsed_or_zero skip_first_open = 500"
    by (simp add: elapsed_or_zero_def skip_first_open_state)
  have l: "length two_tasks = 2" "task_type (two_tasks ! 1) = None"
    by (simp_all add: two_tasks_def std_task_def)
  have a1: "(\<exists>r. taskResults (run [ClickSkipYes, ClickSkipNext [] ] skip_first_open) = [r]
          \<and> \<not> completed r \<and> easeRating r = JNum 0 \<and> comment r = [] \<and> durationMs r = 500)
      \<and> currentTask (run [ClickSkipYes, ClickSkipNext [] ] skip_first_open) = 1
      \<and> modal (run [ClickSkipYes, ClickSkipNext [] ] skip_first_open) = Some MIntro"
    using skip_appends_failed_result[OF b1 o1 n1, of "[]"] t e l
    by (simp del: step.simps run.simps add: skip_first_open_state) blast
  have a2: "(\<exists>r. taskResults (run [ClickSkipYes, ClickSkipNext ''confusing''] skip_second_open)
            = taskResults skip_second_open @ [r]
          \<and> \<not> completed r \<and> easeRating r = JNum 0 \<and> comment r = ''confusing'')
      \<and> modal (run [ClickSkipYes, ClickSkipNext ''confusing''] skip_second_open)
           = Some (MFinal 0)"
    using skip_appends_failed_result[OF b2 o2 n2, of "''confusing''"] t l
    by (simp del: step.simps run.simps add: skip_second_open_state) blast
  have l1: "currentTask skip_first_open + 1 < length (tasks (cfg skip_first_open))"
    and l2: "\<not> currentTask skip_second_open + 1 < length (tasks (cfg skip_second_open))"
    using l by (simp_all add: skip_first_open_state skip_second_open_state)
  show ?thesis
    using a1 a2 b1 o1 n1 b2 o2 n2 l1 l2 by blast
qed

subsection \<open>Counting results at submission\<close>

text \<open>The two counters of the payload are computed as the specification says.\<close>

lemma payload_counts:
  "completedTasks (make_payload overall cmt w) = length (filter completed (taskResults w))
   \<and> totalTasks (make_payload overall cmt w) = length (tasks (cfg w))
   \<and> p_tasks (make_payload overall cmt w) = taskResults w"
  by (simp add: make_payload_def)

text \<open>
  C1, at a session with one recall task that has a correct answer: after the answer is
  recorded the bar's controls are shown again while the feedback dialog is still open,
  and the tester skips the task there. The payload then counts 1 completed task of 1
  and carries two results for the one task, a completed and a skipped one, so completed
  plus skipped is 2 and not the total 1.
\<close>

theorem recall_skip_counts:
  "map (completedTasks \<circ> snd) (downloads recall_then_skip) = [1]
   \<and> map (totalTasks \<circ> snd) (downloads recall_then_skip) = [1]
   \<and> map (map completed \<circ> p_tasks \<circ> snd) (downloads recall_then_skip) = [[True, False]]
   \<and> map taskTitle (taskResults recall_then_skip) = [''Price'', ''Price'']
   \<and> length (filter (\<lambda>r. \<not> completed r) (taskResults recall_then_skip)) = 1
   \<and> length (tasks (cfg recall_then_skip)) = 1"
  by (simp add: eval_defs trim_defs make_payload_def shouldDownload_def fmt_def)

subsection \<open>Goal signals\<close>

text \<open>
  The public entry point checks that the task clock runs; the listener of the goal event
  does not.
\<close>

lemma taskCompleted_before_start: "taskStart w = None \<Longrightarrow> step CallTaskCompleted w = w"
  by (simp add: taskCompleted_def time_truthy_def)

text \<open>
  C3, at a task with goal signal \<open>x\<close> whose instructions are still open (no task clock):
  a call of \<^verbatim>\<open>taskCompleted\<close> is ignored, but dispatching \<open>x\<close> reaches the goal; the
  success dialog opens 300 ms later and its confirmation appends a completed result
  of duration 0.
\<close>

theorem goal_event_before_start:
  "modal goal_intro_open = Some MIntro \<and> taskStart goal_intro_open = None
   \<and> step CallTaskCompleted goal_intro_open = goal_intro_open
   \<and> goalFired (step (Dispatch ''x'') goal_intro_open)
   \<and> length (timeouts (step (Dispatch ''x'') goal_intro_open)) = 1
   \<and> map completed (taskResults
        (run [Dispatch ''x'', Elapse 300, TimeoutFire, ClickSuccessNext []] goal_intro_open)) = [True]
   \<and> map durationMs (taskResults
        (run [Dispatch ''x'', Elapse 300, TimeoutFire, ClickSuccessNext []] goal_intro_open)) = [0]"
  by (simp add: eval_defs trim_defs)

lemma goal_armed_startTask:
  assumes "nth_opt (tasks (cfg w)) i = Some task" and "task_type task \<noteq> Some ''recall''"
    and "goalEvent task = Some g" and "g \<noteq> []" and "timeouts w = []"
  shows "goal_armed (cfg w) (taskResults w) i g (startTask i w)"
  using assms
  by (auto simp: goal_armed_def startTask_def clearGoalListener_def str_truthy_def Let_def
      nth_opt_def split: if_splits)

lemma goal_armed_step:
  assumes "goal_armed c rs i g w" and "during_task e"
  shows "goal_armed c rs i g (step e w) \<or> goal_reached c rs i (step e w)"
  using assms
  by (cases e)
    (auto simp: goal_armed_def goal_reached_def handler_defs nth_opt_def Let_def
      split: option.splits if_splits)

lemma goal_armed_dispatch:
  assumes "goal_armed c rs i g w"
  shows "goal_reached c rs i (step (Dispatch g) w)"
  using assms
  by (auto simp: goal_armed_def goal_reached_def handler_defs nth_opt_def Let_def)

lemma goal_reached_step:
  assumes "goal_reached c rs i w" and "during_task e"
  shows "goal_reached c rs i (step e w)"
  using assms
  by (cases e)
    (auto simp: goal_reached_def handler_defs nth_opt_def Let_def time_truthy_def
      split: option.splits if_splits)

lemma goal_reached_run:
  assumes "goal_reached c rs i w" and "\<forall>e\<in>set es. during_task e"
  shows "goal_reached c rs i (run es w)"
  using assms by (induction es arbitrary: w) (simp_all add: goal_reached_step)

lemma goal_armed_run:
  assumes "goal_armed c rs i g w" and "\<forall>e\<in>set es. during_task e" and "Dispatch g \<in> set es"
  shows "goal_reached c rs i (run es w)"
  using assms
proof (induction es arbitrary: w)
  case Nil
  then show ?case by simp
next
  case (Cons e es)
  show ?case
  proof (cases "e = Dispatch g")
    case True
    then have "goal_reached c rs i (step e w)"
      using Cons.prems(1) goal_armed_dispatch by simp
    then show ?thesis using Cons.prems(2) goal_reached_run by simp
  next
    case False
    then have in_es: "Dispatch g \<in> set es" using Cons.prems(3) by auto
    have "goal_armed c rs i g (step e w) \<or> goal_reached c rs i (step e w)"
      using Cons.prems(1,2) goal_armed_step by simp
    then show ?thesis
    proof
      assume "goal_armed c rs i g (step e w)"
      then show ?thesis using Cons.IH Cons.prems(2) in_es by simp
    next
      assume "goal_reached c rs i (step e w)"
      then show ?thesis using Cons.prems(2) goal_reached_run by simp
    qed
  qed
qed

lemma goal_reached_signals:
  assumes "goal_reached c rs i w"
  shows "step (Dispatch name) w = w" and "step CallTaskCompleted w = w"
    and "taskResults w = rs" and "goalListener w = None" and "\<not> listenerLive w"
  using assms by (simp_all add: goal_reached_def dispatch_def taskCompleted_def)

lemma goal_reached_confirm:
  assumes "goal_reached c rs i w"
  shows "\<exists>r. taskResults (run [Elapse 300, TimeoutFire, ClickSuccessNext cmt] w) = rs @ [r]
           \<and> completed r \<and> taskTitle r = title (tasks c ! i)"
  using assms
  by (auto simp: goal_reached_def timeoutFire_def record_result_def closeModal_def)
text \<open>
  C2. Let a task with goal signal \<open>g\<close> be started while no success dialog of an earlier
  task is pending, and let the host dispatch \<open>g\<close> once or more, mixed in any order with
  calls of \<^verbatim>\<open>taskCompleted\<close>, passing time, clicks on the page, the dismissal of the
  instructions, the opening of the success dialog and the picking of stars. Then no
  result is appended by the signals themselves, the listener is removed, at most one
  success dialog is pending, a further dispatch or call changes nothing, and
  confirming the success dialog appends exactly one result, completed, for that task.
\<close>

theorem goal_signal_idempotent:
  assumes "nth_opt (tasks (cfg w)) i = Some task" and "task_type task \<noteq> Some ''recall''"
    and "goalEvent task = Some g" and "g \<noteq> []" and "timeouts w = []"
    and "\<forall>e\<in>set es. during_task e" and "Dispatch g \<in> set es"
  shows "taskResults (run es (startTask i w)) = taskResults w
     \<and> goalListener (run es (startTask i w)) = None
     \<and> \<not> listenerLive (run es (startTask i w))
     \<and> length (timeouts (run es (startTask i w))) \<le> 1
     \<and> step (Dispatch g) (run es (startTask i w)) = run es (startTask i w)
     \<and> step CallTaskCompleted (run es (startTask i w)) = run es (startTask i w)
     \<and> (\<exists>r. taskResults (run (es @ [Elapse 300, TimeoutFire, ClickSuccessNext cmt])
                  (startTask i w)) = taskResults w @ [r]
            \<and> completed r \<and> taskTitle r = title task)"
proof -
  have armed: "goal_armed (cfg w) (taskResults w) i g (startTask i w)"
    using assms(1-5) by (rule goal_armed_startTask)
  have reached: "goal_reached (cfg w) (taskResults w) i (run es (startTask i w))"
    using armed assms(6,7) by (rule goal_armed_run)
  have tk: "tasks (cfg w) ! i = task"
    using assms(1) by (simp add: nth_opt_def split: if_splits)
  have pend: "length (timeouts (run es (startTask i w))) \<le> 1"
    using reached by (auto simp: goal_reached_def)
  show ?thesis
    using goal_reached_signals[OF reached] goal_reached_confirm[OF reached, of cmt] tk pend
    by (simp add: run_append)
qed

theorem goal_signal_idempotent_witness:
  "nth_opt (tasks (cfg (init ascii_lower (demo_config two_tasks) ''abc'' 1000))) 0
      = Some (std_task ''Add'' (Some ''x''))
   \<and> task_type (std_task ''Add'' (Some ''x'')) \<noteq> Some ''recall''
   \<and> goalEvent (std_task ''Add'' (Some ''x'')) = Some ''x''
   \<and> timeouts (init ascii_lower (demo_config two_tasks) ''abc'' 1000) = []
   \<and> list_all during_task
        [ClickGo, Elapse 3000, Dispatch ''x'', Dispatch ''x'', CallTaskCompleted,
         Elapse 100, Dispatch ''x'']
   \<and> (\<exists>r. taskResults
            (run ([ClickGo, Elapse 3000, Dispatch ''x'', Dispatch ''x'', CallTaskCompleted,
                   Elapse 100, Dispatch ''x'']
                  @ [Elapse 300, TimeoutFire, ClickSuccessNext []])
               (startTask 0 (init ascii_lower (demo_config two_tasks) ''abc'' 1000))) = [r]
          \<and> completed r \<and> taskTitle r = ''Add'')"
proof -
  let ?w = "init ascii_lower (demo_config two_tasks) ''abc'' 1000"
  let ?es = "[ClickGo, Elapse 3000, Dispatch ''x'', Dispatch ''x'', CallTaskCompleted,
              Elapse 100, Dispatch ''x'']"
  have h1: "nth_opt (tasks (cfg ?w)) 0 = Some (std_task ''Add'' (Some ''x''))"
    by (simp add: sample_defs nth_opt_def)
  have h2: "task_type (std_task ''Add'' (Some ''x'')) \<noteq> Some ''recall''"
    by (simp add: std_task_def)
  have h3: "goalEvent (std_task ''Add'' (Some ''x'')) = Some ''x''"
    by (simp add: std_task_def)
  have h4: "''x'' \<noteq> []" by simp
  have h5: "timeouts ?w = []" by (simp add: init_def)
  have h6: "\<forall>e\<in>set ?es. during_task e" by simp
  have h7: "Dispatch ''x'' \<in> set ?es" by simp
  have r0: "taskResults ?w = []" "title (std_task ''Add'' (Some ''x'')) = ''Add''"
    by (simp_all add: init_def std_task_def)
  have "\<exists>r. taskResults (run (?es @ [Elapse 300, TimeoutFire, ClickSuccessNext []])
                (startTask 0 ?w)) = [r] \<and> completed r \<and> taskTitle r = ''Add''"
    using goal_signal_idempotent[OF h1 h2 h3 h4 h5 h6 h7, of "[]"] r0
    by (simp del: step.simps run.simps)
  then show ?thesis using h1 h2 h3 h5 by simp
qed
subsection \<open>Tasks without a goal signal\<close>

lemma manual_waiting_startTask:
  assumes "nth_opt (tasks (cfg w)) i = Some task" and "task_type task \<noteq> Some ''recall''"
    and "\<not> str_truthy (goalEvent task)" and "timeouts w = []"
  shows "manual_waiting (taskResults w) i (startTask i w)"
  using assms
  by (auto simp: manual_waiting_def startTask_def clearGoalListener_def Let_def)

lemma manual_waiting_step:
  assumes "manual_waiting rs i w" and "\<not> completes_manually e"
  shows "manual_waiting rs i (step e w)"
  using assms
  by (cases e)
    (auto simp: manual_waiting_def handler_defs Let_def split: option.splits if_splits)

lemma manual_waiting_run:
  assumes "manual_waiting rs i w" and "\<forall>e\<in>set es. \<not> completes_manually e"
  shows "manual_waiting rs i (run es w)"
  using assms by (induction es arbitrary: w) (simp_all add: manual_waiting_step)

lemma manual_started_state:
  "taskResults manual_started = [] \<and> tasks (cfg manual_started) = [std_task ''Find'' None]
   \<and> currentTask manual_started = 0 \<and> goalListener manual_started = None
   \<and> \<not> listenerLive manual_started \<and> doneVisible manual_started
   \<and> taskStart manual_started = Some 1000 \<and> modal manual_started = None"
  by (simp add: eval_defs trim_defs)

text \<open>
  C6 as stated fails twice. A task without a goal signal is also completed by the host
  calling \<^verbatim>\<open>taskCompleted\<close>, with no use of \<open>Mark as done\<close> or of skip: the call
  opens the success dialog, whose confirmation appends a completed result. And a recall
  task, which has no goal signal either, starts with the bar's controls hidden and
  the done button not made visible, and gets its result from the answer.
\<close>

theorem manual_task_completed_by_host_call:
  "goalEvent (std_task ''Find'' None) = None
   \<and> taskResults manual_started = []
   \<and> map completed (taskResults
        (run [CallTaskCompleted, Elapse 300, TimeoutFire, ClickSuccessNext []] manual_started))
       = [True]
   \<and> goalEvent demo_recall = None
   \<and> \<not> doneVisible recall_started \<and> \<not> controlsShown recall_started
   \<and> step ClickDone recall_started = recall_started
   \<and> step ClickSkip recall_started = recall_started
   \<and> map completed (taskResults (step (ClickRecallSubmit []) recall_question_open)) = [True]"
  by (simp add: eval_defs trim_defs)

text \<open>
  C6, amended. Let a task that is not a recall task and has no goal signal be started
  while no success dialog of an earlier task is pending. Then, as long as the tester
  neither marks the task as done nor confirms a skip and the host does not call
  \<^verbatim>\<open>taskCompleted\<close>, whatever else happens: no goal listener is registered (a
  dispatched event changes nothing), the done button is visible, no result is
  appended and the task stays the current one.
\<close>

theorem manual_task_paths:
  assumes "nth_opt (tasks (cfg w)) i = Some task" and "task_type task \<noteq> Some ''recall''"
    and "\<not> str_truthy (goalEvent task)" and "timeouts w = []"
    and "\<forall>e\<in>set es. \<not> completes_manually e"
  shows "goalListener (run es (startTask i w)) = None
     \<and> step (Dispatch name) (run es (startTask i w)) = run es (startTask i w)
     \<and> doneVisible (run es (startTask i w))
     \<and> taskResults (run es (startTask i w)) = taskResults w
     \<and> currentTask (run es (startTask i w)) = i"
proof -
  have "manual_waiting (taskResults w) i (startTask i w)"
    using assms(1-4) by (rule manual_waiting_startTask)
  then have "manual_waiting (taskResults w) i (run es (startTask i w))"
    using assms(5) by (rule manual_waiting_run)
  then show ?thesis
    by (simp add: manual_waiting_def dispatch_def)
qed

theorem manual_task_paths_witness:
  "nth_opt (tasks (cfg (init ascii_lower (demo_config [std_task ''Find'' None]) ''abc'' 1000))) 0
      = Some (std_task ''Find'' None)
   \<and> task_type (std_task ''Find'' None) \<noteq> Some ''recall''
   \<and> \<not> str_truthy (goalEvent (std_task ''Find'' None))
   \<and> timeouts (init ascii_lower (demo_config [std_task ''Find'' None]) ''abc'' 1000) = []
   \<and> list_all (\<lambda>e. \<not> completes_manually e)
        [ClickGo, Elapse 2000, Dispatch ''x'', HostClick 1 2 ''DIV'' [] [], ClickSkip,
         ClickSkipNo, TimeoutFire, ClickSuccessNext []]
   \<and> taskResults
        (run [ClickGo, Elapse 2000, Dispatch ''x'', HostClick 1 2 ''DIV'' [] [], ClickSkip,
              ClickSkipNo, TimeoutFire, ClickSuccessNext []]
           (startTask 0 (init ascii_lower (demo_config [std_task ''Find'' None]) ''abc'' 1000))) = []
   \<and> doneVisible
        (run [ClickGo, Elapse 2000, Dispatch ''x'', HostClick 1 2 ''DIV'' [] [], ClickSkip,
              ClickSkipNo, TimeoutFire, ClickSuccessNext []]
           (startTask 0 (init ascii_lower (demo_config [std_task ''Find'' None]) ''abc'' 1000)))"
proof -
  let ?w = "init ascii_lower (demo_config [std_task ''Find'' None]) ''abc'' 1000"
  let ?es = "[ClickGo, Elapse 2000, Dispatch ''x'', HostClick 1 2 ''DIV'' [] [], ClickSkip,
              ClickSkipNo, TimeoutFire, ClickSuccessNext []]"
  have h1: "nth_opt (tasks (cfg ?w)) 0 = Some (std_task ''Find'' None)"
    by (simp add: sample_defs nth_opt_def)
  have h2: "task_type (std_task ''Find'' None) \<noteq> Some ''recall''"
    by (simp add: std_task_def)
  have h3: "\<not> str_truthy (goalEvent (std_task ''Find'' None))"
    by (simp add: std_task_def str_truthy_def)
  have h4: "timeouts ?w = []" by (simp add: init_def)
  have h5: "\<forall>e\<in>set ?es. \<not> completes_manually e" by simp
  have r0: "taskResults ?w = []" by (simp add: init_def)
  have "taskResults (run ?es (startTask 0 ?w)) = [] \<and> doneVisible (run ?es (startTask 0 ?w))"
    using manual_task_paths[OF h1 h2 h3 h4 h5] r0 by (simp del: step.simps run.simps)
  then show ?thesis using h1 h2 h3 h4 by simp
qed

subsection \<open>The click trail\<close>

lemma trail_inv_startTask: "trail_inv (startTask i w)"
  by (simp add: trail_inv_def startTask_def startRecallTask_def clearGoalListener_def Let_def
      split: option.splits)

lemma trail_inv_showFinal: "trail_inv w \<Longrightarrow> trail_inv (showFinal w)"
  by (auto simp add: showFinal_def trail_inv_def split: option.splits)

lemma trail_inv_advance: "trail_inv w \<Longrightarrow> trail_inv (advance w)"
  by (simp add: advance_def Let_def trail_inv_showFinal trail_inv_startTask)

lemma trail_inv_step:
  assumes "trail_inv w"
  shows "trail_inv (step e w)"
proof (cases e)
  case (Elapse d)
  then show ?thesis using assms
    by (auto simp: trail_inv_def list_all_iff split: option.splits modal.splits)
next
  case (ClickStart name email)
  then show ?thesis using assms
    by (simp add: clickStart_def trail_inv_startTask split: option.splits modal.splits)
next
  case (ClickRecallSubmit typed)
  have keep: "\<And>rs b. trail_inv (w\<lparr>taskResults := rs, controlsShown := b, modal := None\<rparr>)"
    using assms by (auto simp: trail_inv_def split: option.splits)
  have fb: "\<And>rs b. trail_inv (w\<lparr>taskResults := rs, controlsShown := b,
                                   modal := Some MRecallFeedback\<rparr>)"
    using assms by (auto simp: trail_inv_def split: option.splits)
  show ?thesis using ClickRecallSubmit assms keep fb
    by (auto simp: finishRecall_def closeModal_def Let_def intro!: trail_inv_advance
        split: option.splits modal.splits)
next
  case ClickRecallNext
  have "trail_inv (w\<lparr>modal := None\<rparr>)"
    using assms by (auto simp: trail_inv_def split: option.splits)
  then show ?thesis using ClickRecallNext assms
    by (auto simp: closeModal_def intro!: trail_inv_advance split: option.splits modal.splits)
next
  case (ClickSuccessNext cmt)
  have "\<And>rs. trail_inv (w\<lparr>taskResults := rs, modal := None\<rparr>)"
    using assms by (auto simp: trail_inv_def split: option.splits)
  then show ?thesis using ClickSuccessNext assms
    by (auto simp: closeModal_def record_result_def intro!: trail_inv_advance
        split: option.splits modal.splits)
next
  case (ClickSkipNext cmt)
  have "\<And>rs. trail_inv (w\<lparr>taskResults := rs, modal := None\<rparr>)"
    using assms by (auto simp: trail_inv_def split: option.splits)
  then show ?thesis using ClickSkipNext assms
    by (auto simp: closeModal_def record_result_def intro!: trail_inv_advance
        split: option.splits modal.splits)
qed (use assms in \<open>auto simp: trail_inv_def handler_defs Let_def list_all_iff
      split: option.splits modal.splits list.splits if_splits\<close>)

lemma trail_inv_run: "trail_inv w \<Longrightarrow> trail_inv (run es w)"
  by (induction es arbitrary: w) (simp_all add: trail_inv_step)

lemma trail_inv_init: "trail_inv (init lc u uid now)"
  by (simp add: trail_inv_def init_def)

lemma step_appends_trail:
  "taskResults (step e w) = taskResults w
   \<or> (\<exists>r. taskResults (step e w) = taskResults w @ [r] \<and> res_clicks r = clicks w)"
  by (cases e)
    (auto simp: handler_defs Let_def split: option.splits modal.splits list.splits if_splits)

lemma goal_dialog_open_state:
  "modal goal_dialog_open = Some (MGoal (std_task ''Add'' (Some ''x'')) 3000 0)
   \<and> taskStart goal_dialog_open = Some 1000 \<and> clock goal_dialog_open = 4300
   \<and> map click_t (clicks goal_dialog_open) = [3000, 3100]
   \<and> taskResults goal_dialog_open = []"
  by (simp add: eval_defs trim_defs ascii_lower_def lower_char_def is_upper_def str_or_null_def)

lemma goal_intro_open_state:
  "modal goal_intro_open = Some MIntro \<and> taskStart goal_intro_open = None
   \<and> clicks goal_intro_open = [] \<and> clock goal_intro_open = 1000"
  by (simp add: eval_defs trim_defs)

text \<open>
  C7 as stated fails in its bound. The tester's click at 4000, 3000 ms into the task,
  makes the host dispatch the goal signal in the same instant, so the recorded duration
  is 3000 as well; the trail keeps recording until the success dialog opens 300 ms
  later, here a click at offset 3100. The result carries both clicks, neither below
  its duration.
\<close>

theorem click_offsets_reach_duration:
  "map durationMs (taskResults (step (ClickSuccessNext []) goal_dialog_open)) = [3000]
   \<and> map (map click_t \<circ> res_clicks)
        (taskResults (step (ClickSuccessNext []) goal_dialog_open)) = [[3000, 3100]]
   \<and> \<not> list_all (\<lambda>r. list_all (\<lambda>c. 0 \<le> click_t c \<and> click_t c < durationMs r) (res_clicks r))
          (taskResults (step (ClickSuccessNext []) goal_dialog_open))"
  by (simp add: eval_defs trim_defs ascii_lower_def lower_char_def is_upper_def str_or_null_def)

text \<open>
  C7, amended. A click on the page while no task clock runs changes nothing; starting a
  task empties the trail and stops the clock, and in every session the trail is still
  empty when the instructions are dismissed. In every session, the clicks of a result
  are the trail at the moment the result is appended, and each of them has an offset
  between 0 and the time from the start of the task to that moment (it is not bounded
  by the duration the result records).
\<close>

theorem click_trail_offsets:
  "(taskStart w = None \<longrightarrow> step (HostClick x y tagName ident inner) w = w)
   \<and> clicks (startTask i w) = [] \<and> taskStart (startTask i w) = None
   \<and> (modal (run es (init lc u uid now)) = Some MIntro \<longrightarrow>
        clicks (step ClickGo (run es (init lc u uid now))) = []
        \<and> taskStart (step ClickGo (run es (init lc u uid now)))
             = Some (clock (run es (init lc u uid now))))
   \<and> (taskResults (step e (run es (init lc u uid now)))
         = taskResults (run es (init lc u uid now)) @ [r] \<longrightarrow>
        res_clicks r = clicks (run es (init lc u uid now))
        \<and> list_all (\<lambda>c. 0 \<le> click_t c
                       \<and> (\<exists>ts. taskStart (run es (init lc u uid now)) = Some ts
                                \<and> click_t c \<le> clock (run es (init lc u uid now)) - ts))
             (res_clicks r))"
proof -
  let ?W = "run es (init lc u uid now)"
  have inv: "trail_inv ?W"
    by (rule trail_inv_run) (rule trail_inv_init)
  have p1: "taskStart w = None \<longrightarrow> step (HostClick x y tagName ident inner) w = w"
    by (simp add: trackClicks_def)
  have p2: "clicks (startTask i w) = [] \<and> taskStart (startTask i w) = None"
    by (simp add: startTask_def startRecallTask_def clearGoalListener_def Let_def
        split: option.splits)
  have p3: "modal ?W = Some MIntro \<longrightarrow>
        clicks (step ClickGo ?W) = [] \<and> taskStart (step ClickGo ?W) = Some (clock ?W)"
    using inv by (auto simp: trail_inv_def closeModal_def split: option.splits)
  have p4: "taskResults (step e ?W) = taskResults ?W @ [r] \<longrightarrow>
        res_clicks r = clicks ?W
        \<and> list_all (\<lambda>c. 0 \<le> click_t c
                       \<and> (\<exists>ts. taskStart ?W = Some ts \<and> click_t c \<le> clock ?W - ts))
             (res_clicks r)"
  proof
    assume app: "taskResults (step e ?W) = taskResults ?W @ [r]"
    then have rc: "res_clicks r = clicks ?W"
      using step_appends_trail[of e ?W] by auto
    have "list_all (\<lambda>c. 0 \<le> click_t c
                       \<and> (\<exists>ts. taskStart ?W = Some ts \<and> click_t c \<le> clock ?W - ts))
             (clicks ?W)"
      using inv by (auto simp: trail_inv_def list_all_iff split: option.splits)
    then show "res_clicks r = clicks ?W
        \<and> list_all (\<lambda>c. 0 \<le> click_t c
                       \<and> (\<exists>ts. taskStart ?W = Some ts \<and> click_t c \<le> clock ?W - ts))
             (res_clicks r)"
      using rc by simp
  qed
  show ?thesis using p1 p2 p3 p4 by blast
qed

theorem click_trail_offsets_witness:
  "taskStart goal_intro_open = None
   \<and> step (HostClick 5 6 ''DIV'' [] []) goal_intro_open = goal_intro_open
   \<and> modal goal_intro_open = Some MIntro
   \<and> clicks (step ClickGo goal_intro_open) = []
   \<and> taskStart (step ClickGo goal_intro_open) = Some 1000
   \<and> (\<exists>r. taskResults (step (ClickSuccessNext []) goal_dialog_open)
            = taskResults goal_dialog_open @ [r]
          \<and> map click_t (res_clicks r) = [3000, 3100]
          \<and> list_all (\<lambda>c. 0 \<le> click_t c \<and> click_t c \<le> 3300) (res_clicks r))"
proof -
  let ?u = "demo_config [std_task ''Add'' (Some ''x'')]"
  let ?es1 = "[ClickStart ''Jane'' []]"
  let ?es2 = "[ClickStart ''Jane'' [], ClickGo, Elapse 3000,
               HostClick 10 20 ''BUTTON'' ''add'' ''Add'', Dispatch ''x'', Elapse 100,
               HostClick 30 40 ''DIV'' [] [], Elapse 200, TimeoutFire]"
  have e1: "run ?es1 (init ascii_lower ?u ''abc'' 1000) = goal_intro_open"
    by (simp only: goal_intro_open_def)
  have e2: "run ?es2 (init ascii_lower ?u ''abc'' 1000) = goal_dialog_open"
    by (simp only: goal_dialog_open_def goal_intro_open_def run.simps)
  have s1: "taskStart goal_intro_open = None" and m1: "modal goal_intro_open = Some MIntro"
    and c1: "clock goal_intro_open = 1000"
    by (simp_all add: goal_intro_open_state)
  obtain r where app: "taskResults (step (ClickSuccessNext []) goal_dialog_open)
                         = taskResults goal_dialog_open @ [r]"
    by (simp add: goal_dialog_open_state record_result_def closeModal_def)
  have a1: "step (HostClick 5 6 ''DIV'' [] []) goal_intro_open = goal_intro_open
      \<and> clicks (step ClickGo goal_intro_open) = []
      \<and> taskStart (step ClickGo goal_intro_open) = Some 1000"
    using click_trail_offsets[where w = goal_intro_open and es = "?es1" and u = "?u"
        and lc = ascii_lower and uid = "''abc''" and now = 1000 and x = 5 and y = 6 and tagName = "''DIV''"
        and ident = "[]" and inner = "[]" and i = 0
        and e = "ClickSuccessNext []" and r = r] s1 m1 c1
    unfolding e1 by (simp del: step.simps)
  have a2: "res_clicks r = clicks goal_dialog_open
      \<and> list_all (\<lambda>c. 0 \<le> click_t c
                     \<and> (\<exists>ts. taskStart goal_dialog_open = Some ts
                              \<and> click_t c \<le> clock goal_dialog_open - ts))
           (res_clicks r)"
    using click_trail_offsets[where es = "?es2" and u = "?u" and lc = ascii_lower and uid = "''abc''" and now = 1000
        and e = "ClickSuccessNext []" and r = r and w = goal_intro_open and i = 0
        and x = 5 and y = 6 and tagName = "''DIV''" and ident = "[]" and inner = "[]"] app
    unfolding e2 by (auto simp del: step.simps)
  have rc: "res_clicks r = clicks goal_dialog_open" using a2 by (rule conjunct1)
  have la: "list_all (\<lambda>c. 0 \<le> click_t c
                     \<and> (\<exists>ts. taskStart goal_dialog_open = Some ts
                              \<and> click_t c \<le> clock goal_dialog_open - ts))
           (res_clicks r)"
    using a2 by (rule conjunct2)
  have a3: "map click_t (res_clicks r) = [3000, 3100]"
    unfolding rc by (simp add: goal_dialog_open_state)
  have a4: "list_all (\<lambda>c. 0 \<le> click_t c \<and> click_t c \<le> 3300) (res_clicks r)"
    using la by (simp add: goal_dialog_open_state)
  have ex: "\<exists>r. taskResults (step (ClickSuccessNext []) goal_dialog_open)
            = taskResults goal_dialog_open @ [r]
          \<and> map click_t (res_clicks r) = [3000, 3100]
          \<and> list_all (\<lambda>c. 0 \<le> click_t c \<and> click_t c \<le> 3300) (res_clicks r)"
    using app a3 a4 by (intro exI[of _ r] conjI)
  show ?thesis
    using s1 m1 a1 ex by (simp del: step.simps)
qed

end
